theory Spec2Isabelle
  imports Complex_Main "HOL-Library.AList"
begin

section \<open>JavaScript values and the runtime operations the code relies on\<close>

text \<open>
  The scalar values that travel through the webhook code: order and deal identifiers,
  monetary amounts, CRM field values. \<open>Num r\<close> is a finite number, given by its
  value \<open>r\<close> (a JSON payload carries no infinity); \<open>NaN\<close> is kept apart because the
  code tests for it. These values are compared, converted and tested for truth, never
  added; the one sum in the modelled code is taken in an abstract arithmetic (see
  \<open>arith\<close> below).
\<close>

datatype jsv = Undefined | Null | NaN | Num real | Str string

text \<open>JavaScript truthiness: what \<open>if (v)\<close>, \<open>!v\<close> and \<open>v || w\<close> look at.\<close>

fun truthy :: "jsv \<Rightarrow> bool" where
  "truthy Undefined = False"
| "truthy Null = False"
| "truthy NaN = False"
| "truthy (Num r) = (r \<noteq> 0)"
| "truthy (Str s) = (s \<noteq> [])"

text \<open>\<open>a || b\<close>\<close>

definition js_or :: "jsv \<Rightarrow> jsv \<Rightarrow> jsv" where
  "js_or a b = (if truthy a then a else b)"

text \<open>\<open>a === b\<close>: structural, except that \<open>NaN\<close> equals nothing.\<close>

definition strict_eq :: "jsv \<Rightarrow> jsv \<Rightarrow> bool" where
  "strict_eq a b = (a \<noteq> NaN \<and> a = b)"

text \<open>
  A \<open>string\<close> is a list of one-byte characters, read as the code units U+0000 to
  U+00FF. Of the characters that \<open>String.prototype.trim\<close> removes, seven lie in
  that range: tab, line feed, vertical tab, form feed, carriage return, space and
  the no-break space U+00A0.
\<close>

definition isWhitespace :: "char \<Rightarrow> bool" where
  "isWhitespace c =
     (c \<in> set [CHR 0x09, CHR 0x0A, CHR 0x0B, CHR 0x0C, CHR 0x0D, CHR '' '', CHR 0xA0])"

definition trim :: "string \<Rightarrow> string" where
  "trim s = rev (dropWhile isWhitespace (rev (dropWhile isWhitespace s)))"

text \<open>
  \<open>toLowerCase\<close> on those code units: the letters A to Z, and the capital letters
  U+00C0 to U+00DE (without the multiplication sign U+00D7), each 32 below its small
  letter.
\<close>

definition upperLetters :: string where
  "upperLetters =
     ''ABCDEFGHIJKLMNOPQRSTUVWXYZ'' @
     [CHR 0xC0, CHR 0xC1, CHR 0xC2, CHR 0xC3, CHR 0xC4, CHR 0xC5, CHR 0xC6, CHR 0xC7,
      CHR 0xC8, CHR 0xC9, CHR 0xCA, CHR 0xCB, CHR 0xCC, CHR 0xCD, CHR 0xCE, CHR 0xCF,
      CHR 0xD0, CHR 0xD1, CHR 0xD2, CHR 0xD3, CHR 0xD4, CHR 0xD5, CHR 0xD6,
      CHR 0xD8, CHR 0xD9, CHR 0xDA, CHR 0xDB, CHR 0xDC, CHR 0xDD, CHR 0xDE]"

definition lowerLetters :: string where
  "lowerLetters =
     ''abcdefghijklmnopqrstuvwxyz'' @
     [CHR 0xE0, CHR 0xE1, CHR 0xE2, CHR 0xE3, CHR 0xE4, CHR 0xE5, CHR 0xE6, CHR 0xE7,
      CHR 0xE8, CHR 0xE9, CHR 0xEA, CHR 0xEB, CHR 0xEC, CHR 0xED, CHR 0xEE, CHR 0xEF,
      CHR 0xF0, CHR 0xF1, CHR 0xF2, CHR 0xF3, CHR 0xF4, CHR 0xF5, CHR 0xF6,
      CHR 0xF8, CHR 0xF9, CHR 0xFA, CHR 0xFB, CHR 0xFC, CHR 0xFD, CHR 0xFE]"

definition lowerChar :: "char \<Rightarrow> char" where
  "lowerChar c = (case map_of (zip upperLetters lowerLetters) c of Some l \<Rightarrow> l | None \<Rightarrow> c)"

definition toLowerCase :: "string \<Rightarrow> string" where
  "toLowerCase s = map lowerChar s"

text \<open>
  \<open>String(v)\<close> and \<open>Number(v)\<close>. How the runtime prints a number (\<open>numText\<close>)
  and reads one from a string (\<open>strNumber\<close>, \<open>None\<close> for \<open>NaN\<close>) are parameters.
\<close>

definition jsString :: "(real \<Rightarrow> string) \<Rightarrow> jsv \<Rightarrow> string" where
  "jsString numText v =
     (case v of
        Undefined \<Rightarrow> ''undefined''
      | Null \<Rightarrow> ''null''
      | NaN \<Rightarrow> ''NaN''
      | Num r \<Rightarrow> numText r
      | Str s \<Rightarrow> s)"

definition jsNumber :: "(string \<Rightarrow> real option) \<Rightarrow> jsv \<Rightarrow> jsv" where
  "jsNumber strNumber v =
     (case v of
        Undefined \<Rightarrow> NaN
      | Null \<Rightarrow> Num 0
      | NaN \<Rightarrow> NaN
      | Num r \<Rightarrow> Num r
      | Str s \<Rightarrow> (case strNumber s of None \<Rightarrow> NaN | Some r \<Rightarrow> Num r))"

text \<open>\<open>s.split(',')\<close>: the pieces between the separators, empty pieces kept.\<close>

fun split_acc :: "char \<Rightarrow> string \<Rightarrow> string \<Rightarrow> string list" where
  "split_acc sep cur [] = [rev cur]"
| "split_acc sep cur (c # cs) =
     (if c = sep then rev cur # split_acc sep [] cs else split_acc sep (c # cur) cs)"

definition split :: "char \<Rightarrow> string \<Rightarrow> string list" where
  "split sep s = split_acc sep [] s"

section \<open>The order payload\<close>

text \<open>
  The fields of the Shopify order that the modelled code reads. An absent (or
  \<open>null\<close>) object or array is \<open>None\<close>; scalar fields keep their JavaScript value.
\<close>

record person =
  first_name :: jsv
  last_name :: jsv

record discount_code =
  amount :: jsv

record line_item =
  title :: jsv
  quantity :: jsv
  price :: jsv

datatype tags = NoTags | TagString string | TagArray "string list"

record shopify_order =
  order_id :: jsv
  financial_status :: "string option"
  order_tags :: tags
  line_items :: "line_item list option"
  discount_codes :: "discount_code list option"
  total_discounts :: jsv
  customer :: "person option"
  billing_address :: "person option"

section \<open>The Shopify adapter: \<open>transformToBitrix\<close>\<close>

text \<open>
  \<open>getValue(value)\<close> without a transform: \<open>undefined\<close>, \<open>null\<close> and the empty
  string become \<open>null\<close>.
\<close>

definition getValue :: "jsv \<Rightarrow> jsv" where
  "getValue v = (if v = Undefined \<or> v = Null \<or> v = Str [] then Null else v)"

text \<open>
  The numbers of the runtime are IEEE doubles, with their rounding, their
  infinities, \<open>NaN\<close> and two zeros. The adapter's arithmetic is therefore kept
  abstract: \<open>'n\<close> is the type of a runtime number, and the operations the code
  applies to one are the fields of \<open>arith\<close>: \<open>parseFloat(s)\<close>, the number that a
  numeric value of the payload denotes, \<open>isNaN(x)\<close>, \<open>x + y\<close>, the literal \<open>0\<close>
  and the test \<open>x === 0\<close>.
\<close>

record 'n arith =
  parseFloat :: "string \<Rightarrow> 'n"
  numValue :: "real \<Rightarrow> 'n"
  isNaN :: "'n \<Rightarrow> bool"
  addNum :: "'n \<Rightarrow> 'n \<Rightarrow> 'n"
  zeroNum :: 'n
  isZero :: "'n \<Rightarrow> bool"

text \<open>
  \<open>parseNumber(value)\<close>: \<open>null\<close> (\<open>None\<close>) for \<open>null\<close>, \<open>undefined\<close> and the
  empty string; otherwise \<open>parseFloat\<close> of a string, or the number itself, and
  \<open>null\<close> when that is \<open>NaN\<close>.
\<close>

definition parseNumber :: "'n arith \<Rightarrow> jsv \<Rightarrow> 'n option" where
  "parseNumber A v =
     (if v = Null \<or> v = Undefined \<or> v = Str [] then None
      else case v of
             Str s \<Rightarrow> (if isNaN A (parseFloat A s) then None else Some (parseFloat A s))
           | Num r \<Rightarrow> (if isNaN A (numValue A r) then None else Some (numValue A r))
           | _ \<Rightarrow> None)"

text \<open>
  \<open>amount || 0\<close> for the result of \<open>parseNumber\<close>: a number is falsy when it is a
  zero or \<open>NaN\<close>.
\<close>

definition orZero :: "'n arith \<Rightarrow> 'n option \<Rightarrow> 'n" where
  "orZero A a =
     (case a of
        None \<Rightarrow> zeroNum A
      | Some x \<Rightarrow> (if isZero A x \<or> isNaN A x then zeroNum A else x))"

text \<open>
  The local \<open>totalDiscount\<close> of \<open>transformToBitrix\<close> (adapter, lines 236 to 245):
  the \<open>reduce\<close> over the discount codes starts from 0 and adds, from left to right,
  \<open>parseNumber(code.amount) || 0\<close>; a total that \<open>=== 0\<close> becomes \<open>null\<close>.
\<close>

definition totalDiscount :: "'n arith \<Rightarrow> shopify_order \<Rightarrow> 'n option" where
  "totalDiscount A ord =
     (case discount_codes ord of
        Some (c # cs) \<Rightarrow>
          (let total = foldl (\<lambda>sum code. addNum A sum (orZero A (parseNumber A (amount code))))
                         (zeroNum A) (c # cs)
           in if isZero A total then None else Some total)
      | _ \<Rightarrow>
          (if truthy (total_discounts ord) then parseNumber A (total_discounts ord) else None))"

text \<open>
  In the spec's words the discount is "the sum of the per-code amounts": the
  amounts added one after the other to a running total, with the runtime's
  addition.
\<close>

fun sumLeft :: "'n arith \<Rightarrow> 'n \<Rightarrow> 'n list \<Rightarrow> 'n" where
  "sumLeft A running [] = running"
| "sumLeft A running (x # xs) = sumLeft A (addNum A running x) xs"

text \<open>
  The template literal \<open>`${getValue(first) || ''} ${getValue(last) || ''}`\<close>: each
  part is rendered as text. \<open>numText\<close> is the runtime's rendering of a number.
\<close>

definition nameText :: "(real \<Rightarrow> string) \<Rightarrow> jsv \<Rightarrow> string" where
  "nameText numText v =
     (case js_or (getValue v) (Str []) of
        Str s \<Rightarrow> s
      | Num r \<Rightarrow> numText r
      | _ \<Rightarrow> [])"

definition joinedName :: "(real \<Rightarrow> string) \<Rightarrow> person \<Rightarrow> string option" where
  "joinedName numText p =
     (let s = trim (nameText numText (first_name p) @ '' '' @ nameText numText (last_name p))
      in if s = [] then None else Some s)"

text \<open>The local \<open>customerName\<close> of \<open>transformToBitrix\<close>.\<close>

definition customerName :: "(real \<Rightarrow> string) \<Rightarrow> shopify_order \<Rightarrow> string option" where
  "customerName numText ord =
     (case customer ord of
        Some c \<Rightarrow> joinedName numText c
      | None \<Rightarrow>
          (case billing_address ord of
             Some b \<Rightarrow> joinedName numText b
           | None \<Rightarrow> None))"

section \<open>CRM records, the gateway and the handler state\<close>

text \<open>
  A deal as \<open>crm.deal.list\<close> returns it, with the selected fields the code reads.
  \<open>DATE_CREATE\<close> is the creation time as a number: the code never reads it, it
  asks the CRM to sort by it.
\<close>

record crm_deal =
  ID :: jsv
  CATEGORY_ID :: jsv
  STAGE_ID :: jsv
  DATE_CREATE :: nat
  UF_SHOPIFY_ORDER_ID :: jsv

text \<open>
  A JavaScript object with scalar values: its keys in insertion order. Reading a
  missing key gives \<open>undefined\<close>; an assignment \<open>obj.K = v\<close> is \<open>AList.update\<close>.
\<close>

type_synonym obj = "(string \<times> jsv) list"

definition obj_get :: "obj \<Rightarrow> string \<Rightarrow> jsv" where
  "obj_get ob k = (case map_of ob k of None \<Rightarrow> Undefined | Some v \<Rightarrow> v)"

definition obj_keys :: "obj \<Rightarrow> string list" where
  "obj_keys ob = map fst ob"

datatype exn = Error string | TypeError string

definition message :: "exn \<Rightarrow> string" where
  "message e = (case e of Error m \<Rightarrow> m | TypeError m \<Rightarrow> m)"

text \<open>The parameters of a \<open>/crm.deal.list.json\<close> call.\<close>

record list_params =
  filter_order_id :: "string option"
  select_fields :: "string list"
  order_date_desc :: bool
  limit_n :: "nat option"

text \<open>
  The calls that leave the process: the four CRM methods reached through
  \<open>callBitrix\<close>, and the contact upsert. \<open>'r\<close> is the type of a product row.
\<close>

datatype 'r call =
    DealList list_params
  | DealAdd obj
  | DealUpdate jsv obj
  | ProductRowsSet jsv "'r list"
  | ContactUpsert string shopify_order

text \<open>
  What a run leaves behind, in order: its calls, and its \<open>console.error\<close> and
  \<open>console.warn\<close> lines (one event for each catch block or anomaly that logs;
  \<open>console.log\<close> is not recorded).
\<close>

datatype 'r event = Call "'r call" | ConsoleError string | ConsoleWarn string

text \<open>The response of \<open>/crm.deal.add.json\<close>: its \<open>result\<close> and its JSON text.\<close>

record add_response =
  result :: jsv
  json :: string

text \<open>What \<open>mapShopifyOrderToBitrixDeal\<close> returns.\<close>

record 'r mapped =
  dealFields :: obj
  productRows :: "'r list option"

text \<open>An entry of the adapter's in-memory event log.\<close>

record stored_event =
  payload :: shopify_order
  received_at :: string
  eventId :: string
  orderId :: jsv

text \<open>
  The state the handlers run in: the CRM behind the gateway (\<open>'w\<close>, opaque), the
  calls and error logs issued so far, and the adapter's event log.
\<close>

record ('w, 'r) state =
  world :: 'w
  trace :: "'r event list"
  storage :: "stored_event list"

text \<open>
  Everything the handlers import that is not part of the modelled files: the
  runtime conversions, the order mapper, the stage and payment-status policy, the
  category constants of \<open>BITRIX_CONFIG\<close>, and the gateway. A gateway call returns
  its response or the exception it throws, and the CRM's next state.
\<close>

record ('w, 'r) deps =
  numText :: "real \<Rightarrow> string"
  strNumber :: "string \<Rightarrow> real option"
  mapShopifyOrderToBitrixDeal :: "shopify_order \<Rightarrow> 'r mapped"
  financialStatusToStageId :: "string option \<Rightarrow> jsv \<Rightarrow> jsv \<Rightarrow> jsv"
  financialStatusToPaymentStatus :: "string option \<Rightarrow> jsv"
  CATEGORY_PREORDER :: jsv
  CATEGORY_STOCK :: jsv
  crm_deal_list :: "list_params \<Rightarrow> 'w \<Rightarrow> (exn + crm_deal list option) \<times> 'w"
  crm_deal_add :: "obj \<Rightarrow> 'w \<Rightarrow> (exn + add_response) \<times> 'w"
  crm_deal_update :: "jsv \<Rightarrow> obj \<Rightarrow> 'w \<Rightarrow> (exn + unit) \<times> 'w"
  crm_deal_productrows_set :: "jsv \<Rightarrow> 'r list \<Rightarrow> 'w \<Rightarrow> (exn + unit) \<times> 'w"
  getBitrixWebhookBase :: "exn + string"
  upsertBitrixContact :: "string \<Rightarrow> shopify_order \<Rightarrow> 'w \<Rightarrow> (exn + jsv) \<times> 'w"

subsection \<open>Sequencing, throwing and catching\<close>

type_synonym ('a, 'w, 'r) io = "('w, 'r) state \<Rightarrow> (exn + 'a) \<times> ('w, 'r) state"

definition io_return :: "'a \<Rightarrow> ('a, 'w, 'r) io" where
  "io_return x = (\<lambda>s. (Inr x, s))"

definition io_throw :: "exn \<Rightarrow> ('a, 'w, 'r) io" where
  "io_throw e = (\<lambda>s. (Inl e, s))"

definition io_bind :: "('a, 'w, 'r) io \<Rightarrow> ('a \<Rightarrow> ('b, 'w, 'r) io) \<Rightarrow> ('b, 'w, 'r) io" where
  "io_bind m f = (\<lambda>s. case m s of (Inl e, s') \<Rightarrow> (Inl e, s') | (Inr x, s') \<Rightarrow> f x s')"

text \<open>\<open>try { m } catch (e) { h e }\<close>\<close>

definition io_catch :: "('a, 'w, 'r) io \<Rightarrow> (exn \<Rightarrow> ('a, 'w, 'r) io) \<Rightarrow> ('a, 'w, 'r) io" where
  "io_catch m h = (\<lambda>s. case m s of (Inl e, s') \<Rightarrow> h e s' | (Inr x, s') \<Rightarrow> (Inr x, s'))"

definition emit :: "'r event \<Rightarrow> (unit, 'w, 'r) io" where
  "emit ev = (\<lambda>s. (Inr (), s\<lparr>trace := trace s @ [ev]\<rparr>))"

text \<open>
  A gateway call: the call is recorded, the gateway answers (or throws) and moves
  the CRM to its next state.
\<close>

definition gateway ::
  "'r call \<Rightarrow> ('w \<Rightarrow> (exn + 'a) \<times> 'w) \<Rightarrow> ('a, 'w, 'r) io" where
  "gateway c f =
     (\<lambda>s. case f (world s) of
             (r, w') \<Rightarrow> (r, s\<lparr>world := w', trace := trace s @ [Call c]\<rparr>))"

definition callDealList :: "('w, 'r) deps \<Rightarrow> list_params \<Rightarrow> (crm_deal list option, 'w, 'r) io" where
  "callDealList env p = gateway (DealList p) (crm_deal_list env p)"

definition callDealAdd :: "('w, 'r) deps \<Rightarrow> obj \<Rightarrow> (add_response, 'w, 'r) io" where
  "callDealAdd env flds = gateway (DealAdd flds) (crm_deal_add env flds)"

definition callDealUpdate :: "('w, 'r) deps \<Rightarrow> jsv \<Rightarrow> obj \<Rightarrow> (unit, 'w, 'r) io" where
  "callDealUpdate env i flds = gateway (DealUpdate i flds) (crm_deal_update env i flds)"

definition callProductRowsSet :: "('w, 'r) deps \<Rightarrow> jsv \<Rightarrow> 'r list \<Rightarrow> (unit, 'w, 'r) io" where
  "callProductRowsSet env i rows =
     gateway (ProductRowsSet i rows) (crm_deal_productrows_set env i rows)"

definition callContactUpsert ::
  "('w, 'r) deps \<Rightarrow> string \<Rightarrow> shopify_order \<Rightarrow> (jsv, 'w, 'r) io" where
  "callContactUpsert env base ord =
     gateway (ContactUpsert base ord) (upsertBitrixContact env base ord)"

section \<open>The order handlers of the Shopify webhook\<close>

text \<open>
  The Shopify endpoint is the second file of the listing
  \<open>src/pages/api/webhook/refund/crt.js\<close>; line numbers below are those of the listing.
\<close>

subsection \<open>Parts that both handlers share\<close>

text \<open>
  The category of an order, from its tags (written out twice in
  \<open>handleOrderUpdated\<close>): \<open>order.tags\<close> is an array, or a comma-separated
  string whose pieces are trimmed, or absent.
\<close>

definition orderTags :: "shopify_order \<Rightarrow> string list" where
  "orderTags ord =
     (case order_tags ord of
        TagArray ts \<Rightarrow> ts
      | TagString s \<Rightarrow> (if s \<noteq> [] then map trim (split CHR '','' s) else [])
      | NoTags \<Rightarrow> [])"

definition preorderTags :: "string list" where
  "preorderTags = [''pre-order'', ''preorder-product-added'']"

definition hasPreorderTag :: "shopify_order \<Rightarrow> bool" where
  "hasPreorderTag ord =
     list_ex (\<lambda>tag. list_ex (\<lambda>preorderTag. toLowerCase tag = toLowerCase preorderTag) preorderTags)
       (orderTags ord)"

definition categoryId :: "('w, 'r) deps \<Rightarrow> shopify_order \<Rightarrow> jsv" where
  "categoryId env ord = (if hasPreorderTag ord then CATEGORY_PREORDER env else CATEGORY_STOCK env)"

text \<open>
  The contact upsert, "non-blocking": the \<open>try\<close> block around
  \<open>getBitrixWebhookBase\<close> and \<open>upsertBitrixContact\<close> in both create paths. The
  result is the deal fields, with \<open>CONTACT_ID\<close> when a contact came back.
\<close>

definition upsertContact ::
  "('w, 'r) deps \<Rightarrow> shopify_order \<Rightarrow> obj \<Rightarrow> (obj, 'w, 'r) io" where
  "upsertContact env ord flds =
     io_catch
       (io_bind (case getBitrixWebhookBase env of
                   Inl e \<Rightarrow> io_throw e
                 | Inr bitrixBase \<Rightarrow> io_return bitrixBase)
          (\<lambda>bitrixBase.
             io_bind (callContactUpsert env bitrixBase ord)
               (\<lambda>contactId.
                  io_return (if truthy contactId
                             then AList.update ''CONTACT_ID'' contactId flds
                             else flds))))
       (\<lambda>contactError.
          io_bind (emit (ConsoleError ''Contact upsert failed (non-blocking)''))
            (\<lambda>_. io_return flds))"

text \<open>
  \<open>/crm.deal.add.json\<close> and the check of its result, in both create paths: a falsy
  \<open>result\<close> throws.
\<close>

definition addDeal :: "('w, 'r) deps \<Rightarrow> obj \<Rightarrow> (jsv, 'w, 'r) io" where
  "addDeal env flds =
     io_bind (callDealAdd env flds)
       (\<lambda>dealAddResp.
          if \<not> truthy (result dealAddResp)
          then io_bind (emit (ConsoleError ''Failed to create deal''))
                 (\<lambda>_. io_throw (Error (''Failed to create deal: '' @ json dealAddResp)))
          else io_return (result dealAddResp))"

subsection \<open>\<open>handleOrderCreated\<close> (lines 32 to 122)\<close>

text \<open>
  The lookup by join key (limit 1), the exact string match on its result, and, with
  no match, the mapper, the contact upsert, the create and the row call in its
  \<open>try\<close>. Reading \<open>productRows.length\<close> of a missing \<open>productRows\<close> throws.
\<close>

definition existingDealCheck :: "string \<Rightarrow> list_params" where
  "existingDealCheck shopifyOrderId =
     \<lparr>filter_order_id = Some shopifyOrderId,
      select_fields = [''ID'', ''UF_SHOPIFY_ORDER_ID''],
      order_date_desc = False,
      limit_n = Some 1\<rparr>"

definition handleOrderCreated :: "('w, 'r) deps \<Rightarrow> shopify_order \<Rightarrow> (jsv, 'w, 'r) io" where
  "handleOrderCreated env ord =
     (let shopifyOrderId = jsString (numText env) (order_id ord) in
      io_bind (callDealList env (existingDealCheck shopifyOrderId))
        (\<lambda>res.
           let existingDeals = (case res of None \<Rightarrow> [] | Some ds \<Rightarrow> ds) in
           case find (\<lambda>d. jsString (numText env) (UF_SHOPIFY_ORDER_ID d) = shopifyOrderId)
                  existingDeals of
             Some exactMatch \<Rightarrow> io_return (ID exactMatch)
           | None \<Rightarrow>
               (let m = mapShopifyOrderToBitrixDeal env ord in
                case productRows m of
                  None \<Rightarrow> io_throw (TypeError ''Cannot read properties of undefined'')
                | Some rows \<Rightarrow>
                    io_bind (upsertContact env ord
                               (AList.update ''UF_SHOPIFY_ORDER_ID'' (Str shopifyOrderId)
                                  (dealFields m)))
                      (\<lambda>flds.
                         io_bind (addDeal env flds)
                           (\<lambda>dealId.
                              io_bind
                                (if length rows > 0
                                 then io_catch (callProductRowsSet env dealId rows)
                                        (\<lambda>productRowsError.
                                           emit (ConsoleError ''Product rows error (non-blocking)''))
                                 else io_return ())
                                (\<lambda>_. io_return dealId))))))"

subsection \<open>\<open>handleOrderUpdated\<close> (lines 132 to 424)\<close>

text \<open>
  The strict client-side filter, written out twice in the source (for the filtered
  query and for the alternative search).
\<close>

definition strictMatch :: "('w, 'r) deps \<Rightarrow> shopify_order \<Rightarrow> crm_deal \<Rightarrow> bool" where
  "strictMatch env ord d =
     (let shopifyOrderId = jsString (numText env) (order_id ord);
          shopifyOrderIdNum = jsNumber (strNumber env) (order_id ord);
          dealOrderId = UF_SHOPIFY_ORDER_ID d
      in if \<not> truthy dealOrderId then False
         else if jsString (numText env) dealOrderId = shopifyOrderId then True
         else if jsNumber (strNumber env) dealOrderId \<noteq> NaN
                 \<and> strict_eq (jsNumber (strNumber env) dealOrderId) shopifyOrderIdNum then True
         else if trim (jsString (numText env) dealOrderId) = trim shopifyOrderId then True
         else False)"

definition dealSelect :: "string list" where
  "dealSelect = [''ID'', ''OPPORTUNITY'', ''STAGE_ID'', ''CATEGORY_ID'', ''DATE_CREATE'',
                 ''UF_SHOPIFY_ORDER_ID'']"

definition filteredQuery :: "string \<Rightarrow> list_params" where
  "filteredQuery shopifyOrderId =
     \<lparr>filter_order_id = Some shopifyOrderId, select_fields = dealSelect,
      order_date_desc = True, limit_n = None\<rparr>"

definition recentQuery :: "list_params" where
  "recentQuery =
     \<lparr>filter_order_id = None, select_fields = dealSelect,
      order_date_desc = True, limit_n = Some 100\<rparr>"

text \<open>
  Step 1 of \<open>handleOrderUpdated\<close> (lines 143 to 235), the search for the order's
  deals: the filtered query (its exception caught), the strict filter, and when
  that leaves nothing the alternative search over the recent deals (its exception
  caught too). The result is \<open>(allDeals, deals)\<close>.
\<close>

definition findDeals ::
  "('w, 'r) deps \<Rightarrow> shopify_order \<Rightarrow> (crm_deal list \<times> crm_deal list, 'w, 'r) io" where
  "findDeals env ord =
     io_bind
       (io_catch
          (io_bind (callDealList env (filteredQuery (jsString (numText env) (order_id ord))))
             (\<lambda>res. io_return (case res of None \<Rightarrow> [] | Some ds \<Rightarrow> ds)))
          (\<lambda>filterError.
             io_bind (emit (ConsoleError ''Error filtering by UF_SHOPIFY_ORDER_ID''))
               (\<lambda>_. io_return [])))
       (\<lambda>allDeals.
          let deals = filter (strictMatch env ord) allDeals in
          if length deals = 0
          then io_catch
                 (io_bind (callDealList env recentQuery)
                    (\<lambda>res.
                       let recentDeals = (case res of None \<Rightarrow> [] | Some ds \<Rightarrow> ds);
                           foundDeals = filter (strictMatch env ord) recentDeals
                       in io_return (allDeals, if length foundDeals > 0 then foundDeals else deals)))
                 (\<lambda>altSearchError.
                    io_bind (emit (ConsoleError ''Alternative search failed''))
                      (\<lambda>_. io_return (allDeals, deals)))
          else io_return (allDeals, deals))"

text \<open>
  The branch \<open>finalDealsCount === 0\<close> (lines 247 to 305): a new deal. The row call
  is not in a \<open>try\<close>.
\<close>

definition createNewDeal :: "('w, 'r) deps \<Rightarrow> shopify_order \<Rightarrow> (jsv, 'w, 'r) io" where
  "createNewDeal env ord =
     (let shopifyOrderId = jsString (numText env) (order_id ord);
          m = mapShopifyOrderToBitrixDeal env ord
      in io_bind (upsertContact env ord
                    (AList.update ''UF_SHOPIFY_ORDER_ID'' (Str shopifyOrderId)
                       (AList.update ''CATEGORY_ID'' (categoryId env ord) (dealFields m))))
           (\<lambda>flds.
              io_bind (addDeal env flds)
                (\<lambda>dealId.
                   io_bind
                     (case productRows m of
                        None \<Rightarrow> io_return ()
                      | Some rows \<Rightarrow>
                          (if length rows > 0 then callProductRowsSet env dealId rows
                           else io_return ()))
                     (\<lambda>_. io_return dealId))))"

text \<open>
  The object \<open>fields\<close> that step 2 builds for the update of the deal found (lines
  329 to 395).
\<close>

definition updateFields :: "('w, 'r) deps \<Rightarrow> shopify_order \<Rightarrow> crm_deal \<Rightarrow> obj" where
  "updateFields env ord deal =
     (let currentCategoryId = js_or (jsNumber (strNumber env) (CATEGORY_ID deal)) (Num 2);
          mappedFields = dealFields (mapShopifyOrderToBitrixDeal env ord);
          f0 = [(''OPPORTUNITY'', obj_get mappedFields ''OPPORTUNITY''),
                (''UF_SHOPIFY_TOTAL_DISCOUNT'',
                   js_or (obj_get mappedFields ''UF_SHOPIFY_TOTAL_DISCOUNT'') (Num 0)),
                (''UF_SHOPIFY_TOTAL_TAX'',
                   js_or (obj_get mappedFields ''UF_SHOPIFY_TOTAL_TAX'') (Num 0)),
                (''UF_SHOPIFY_SHIPPING_PRICE'',
                   js_or (obj_get mappedFields ''UF_SHOPIFY_SHIPPING_PRICE'') (Num 0))];
          f1 = (if \<not> strict_eq (categoryId env ord) currentCategoryId
                then AList.update ''CATEGORY_ID'' (categoryId env ord) f0 else f0);
          currentStageId = STAGE_ID deal;
          financialStatusLower =
            (case financial_status ord of None \<Rightarrow> [] | Some fs \<Rightarrow> toLowerCase fs);
          stageId = financialStatusToStageId env (financial_status ord) (categoryId env ord)
                      currentStageId;
          f2 = (if financialStatusLower = ''partially_refunded'' then f1
                else AList.update ''STAGE_ID'' stageId f1);
          f3 = AList.update ''UF_CRM_1739183959976''
                 (financialStatusToPaymentStatus env (financial_status ord)) f2;
          f4 = (if truthy (obj_get mappedFields ''UF_CRM_1739183268662'')
                then AList.update ''UF_CRM_1739183268662''
                       (obj_get mappedFields ''UF_CRM_1739183268662'') f3
                else f3);
          f5 = (if truthy (obj_get mappedFields ''UF_CRM_1739183302609'')
                then AList.update ''UF_CRM_1739183302609''
                       (obj_get mappedFields ''UF_CRM_1739183302609'') f4
                else f4)
      in f5)"

text \<open>
  Steps 3 and 4 (lines 397 to 423): the field update (not in a \<open>try\<close>), then the
  product rows, always set, \<open>productRows || []\<close>, inside a \<open>try\<close>.
\<close>

definition updateExistingDeal ::
  "('w, 'r) deps \<Rightarrow> shopify_order \<Rightarrow> crm_deal \<Rightarrow> (jsv, 'w, 'r) io" where
  "updateExistingDeal env ord deal =
     io_bind (callDealUpdate env (ID deal) (updateFields env ord deal))
       (\<lambda>_.
          io_bind
            (io_catch
               (callProductRowsSet env (ID deal)
                  (case productRows (mapShopifyOrderToBitrixDeal env ord) of
                     None \<Rightarrow> []
                   | Some rows \<Rightarrow> rows))
               (\<lambda>productRowsError. emit (ConsoleError ''Product rows update error'')))
            (\<lambda>_. io_return (ID deal)))"

text \<open>
  The resolution: no deal, create; one deal, update it; several, report the data
  error and update \<open>deals[0]\<close>.
\<close>

definition resolveDeals ::
  "('w, 'r) deps \<Rightarrow> shopify_order \<Rightarrow> crm_deal list \<times> crm_deal list \<Rightarrow> (jsv, 'w, 'r) io" where
  "resolveDeals env ord found =
     (case found of
        (allDeals, deals) \<Rightarrow>
          io_bind
            (if length allDeals > length deals \<and> length deals > 0
             then emit (ConsoleWarn ''Using exact matches only'') else io_return ())
            (\<lambda>_.
               case deals of
                 [] \<Rightarrow> createNewDeal env ord
               | [deal] \<Rightarrow> updateExistingDeal env ord deal
               | deal # _ \<Rightarrow>
                   io_bind (emit (ConsoleError ''DATA ERROR: several deals for one order''))
                     (\<lambda>_. updateExistingDeal env ord deal)))"

definition handleOrderUpdated :: "('w, 'r) deps \<Rightarrow> shopify_order \<Rightarrow> (jsv, 'w, 'r) io" where
  "handleOrderUpdated env ord = io_bind (findDeals env ord) (resolveDeals env ord)"

section \<open>The adapter's event log and the webhook endpoint\<close>

text \<open>
  \<open>shopifyAdapter.storeEvent(payload)\<close>: the unique id and the time stamp come from
  the clock and the random generator, here arguments. Reading \<open>payload.id\<close> of a
  missing payload throws.
\<close>

definition storeEvent ::
  "string \<Rightarrow> string \<Rightarrow> shopify_order option \<Rightarrow> (stored_event, 'w, 'r) io" where
  "storeEvent uniqueId now pl =
     (case pl of
        None \<Rightarrow> io_throw (TypeError ''Cannot read properties of undefined'')
      | Some p \<Rightarrow>
          (\<lambda>s. let ev = \<lparr>payload = p, received_at = now, eventId = uniqueId,
                            orderId = js_or (order_id p) Null\<rparr>
                in (Inr ev, s\<lparr>storage := storage s @ [ev]\<rparr>)))"

record request =
  req_method :: string
  headers :: "string \<Rightarrow> string option"
  req_body :: "shopify_order option"

datatype body =
    Empty
  | Text string
  | SuccessJson string "string option"
  | ErrorJson string string

record response =
  status :: nat
  resp_body :: body

text \<open>\<open>req.headers['x-shopify-topic'] || req.headers['X-Shopify-Topic']\<close>\<close>

definition topic :: "request \<Rightarrow> string option" where
  "topic req =
     (case headers req ''x-shopify-topic'' of
        Some t \<Rightarrow> (if t \<noteq> [] then Some t else headers req ''X-Shopify-Topic'')
      | None \<Rightarrow> headers req ''X-Shopify-Topic'')"

text \<open>
  \<open>handleProductUpdated\<close> only logs; like the order handlers it reads a property of
  its argument first, which throws when the body is missing.
\<close>

definition handleProductUpdated :: "shopify_order option \<Rightarrow> (bool, 'w, 'r) io" where
  "handleProductUpdated product =
     (case product of
        None \<Rightarrow> io_throw (TypeError ''Cannot read properties of undefined'')
      | Some _ \<Rightarrow> io_return True)"

text \<open>The chain of topic tests inside the handler's \<open>try\<close>.\<close>

definition dispatch ::
  "('w, 'r) deps \<Rightarrow> string option \<Rightarrow> shopify_order option \<Rightarrow> (unit, 'w, 'r) io" where
  "dispatch env tp order =
     (if tp = Some ''orders/create''
      then (case order of
              None \<Rightarrow> io_throw (TypeError ''Cannot read properties of undefined'')
            | Some ord \<Rightarrow> io_bind (handleOrderCreated env ord) (\<lambda>_. io_return ()))
      else if tp = Some ''orders/updated''
      then (case order of
              None \<Rightarrow> io_throw (TypeError ''Cannot read properties of undefined'')
            | Some ord \<Rightarrow> io_bind (handleOrderUpdated env ord) (\<lambda>_. io_return ()))
      else if tp = Some ''products/update''
      then io_bind (handleProductUpdated order) (\<lambda>_. io_return ())
      else io_return ())"

text \<open>
  The exported \<open>handler(req, res)\<close> (lines 483 to 564). The response written
  to \<open>res\<close> is the result; \<open>requestId\<close>, and the id and time stamp of the stored
  event, are arguments.
\<close>

definition handler ::
  "('w, 'r) deps \<Rightarrow> string \<Rightarrow> string \<Rightarrow> string \<Rightarrow> request \<Rightarrow> ('w, 'r) state
     \<Rightarrow> response \<times> ('w, 'r) state" where
  "handler env requestId uniqueId now req s =
     (if req_method req \<noteq> ''POST''
      then (\<lparr>status = 405, resp_body = Text ''Method not allowed''\<rparr>, s)
      else
        case io_bind
               (if topic req = None \<or> topic req = Some []
                then emit (ConsoleError ''NO TOPIC HEADER'') else io_return ())
               (\<lambda>_.
                  io_catch
                    (io_bind
                       (io_catch
                          (io_bind (storeEvent uniqueId now (req_body req)) (\<lambda>_. io_return ()))
                          (\<lambda>storeError. emit (ConsoleError ''Failed to store event'')))
                       (\<lambda>_.
                          io_bind (dispatch env (topic req) (req_body req))
                            (\<lambda>_. io_return
                                    \<lparr>status = 200,
                                     resp_body = SuccessJson requestId (topic req)\<rparr>)))
                    (\<lambda>e.
                       io_bind (emit (ConsoleError ''Error''))
                         (\<lambda>_. io_return
                                 \<lparr>status = 500,
                                  resp_body = ErrorJson (message e) requestId\<rparr>)))
               s of
          (Inr resp, s') \<Rightarrow> (resp, s')
        | (Inl e, s') \<Rightarrow> (\<lparr>status = 500, resp_body = ErrorJson (message e) requestId\<rparr>, s'))"

text \<open>
  The endpoint \<open>/api/webhook/refund/crt\<close>: it sets the topic header to
  \<open>refunds/create\<close> and hands over to the handler above.
\<close>

definition refundCrtHandler ::
  "('w, 'r) deps \<Rightarrow> string \<Rightarrow> string \<Rightarrow> string \<Rightarrow> request \<Rightarrow> ('w, 'r) state
     \<Rightarrow> response \<times> ('w, 'r) state" where
  "refundCrtHandler env requestId uniqueId now req =
     handler env requestId uniqueId now
       (req\<lparr>headers := (headers req)(''x-shopify-topic'' \<mapsto> ''refunds/create'')\<rparr>)"

text \<open>The gateway calls among the events of a trace, and the calls that change the CRM.\<close>

fun calls :: "'r event list \<Rightarrow> 'r call list" where
  "calls [] = []"
| "calls (Call c # es) = c # calls es"
| "calls (_ # es) = calls es"

fun isMutation :: "'r call \<Rightarrow> bool" where
  "isMutation (DealList _) = False"
| "isMutation _ = True"

fun isDealAdd :: "'r call \<Rightarrow> bool" where
  "isDealAdd (DealAdd _) = True"
| "isDealAdd _ = False"

fun isDealUpdate :: "'r call \<Rightarrow> bool" where
  "isDealUpdate (DealUpdate _ _) = True"
| "isDealUpdate _ = False"

text \<open>The deal that a call changes, for the two calls that name one.\<close>

fun targetDeal :: "'r call \<Rightarrow> jsv option" where
  "targetDeal (DealUpdate i _) = Some i"
| "targetDeal (ProductRowsSet i _) = Some i"
| "targetDeal _ = None"

section \<open>A concrete environment\<close>

text \<open>
  The results below hold for every environment. To run the handlers on concrete
  orders, this section supplies one: decimal stand-ins for the runtime conversions,
  a small mapper and policy, and an in-memory CRM that keeps its deals newest first
  and replaces a deal's rows on every row call.
\<close>

definition isDigit :: "char \<Rightarrow> bool" where
  "isDigit c = (c \<in> set ''0123456789'')"

definition digitValue :: "char \<Rightarrow> nat" where
  "digitValue c =
     (case map_of (zip ''0123456789'' [0, 1, 2, 3, 4, 5, 6, 7, 8, 9]) c of
        Some n \<Rightarrow> n
      | None \<Rightarrow> 0)"

definition digitsValue :: "string \<Rightarrow> nat" where
  "digitsValue s = foldl (\<lambda>n c. 10 * n + digitValue c) 0 s"

text \<open>\<open>parseFloat\<close> on plain decimals: leading white space, digits, an optional fraction.\<close>

definition decimalParseFloat :: "string \<Rightarrow> real option" where
  "decimalParseFloat s =
     (let t = dropWhile isWhitespace s; ip = takeWhile isDigit t; rest = dropWhile isDigit t
      in if ip = [] then None
         else case rest of
                [] \<Rightarrow> Some (real (digitsValue ip))
              | c # fr \<Rightarrow>
                  (if c = CHR ''.''
                   then (let fp = takeWhile isDigit fr
                         in Some (real (digitsValue ip) + real (digitsValue fp) / 10 ^ length fp))
                   else Some (real (digitsValue ip))))"

text \<open>
  Exact decimal arithmetic in place of the doubles: a number is a real, or \<open>None\<close>
  for \<open>NaN\<close>.
\<close>

definition decimalArith :: "real option arith" where
  "decimalArith =
     \<lparr>parseFloat = decimalParseFloat,
      numValue = Some,
      isNaN = (\<lambda>x. x = None),
      addNum = (\<lambda>x y. case x of None \<Rightarrow> None
                           | Some a \<Rightarrow> (case y of None \<Rightarrow> None | Some b \<Rightarrow> Some (a + b))),
      zeroNum = Some 0,
      isZero = (\<lambda>x. x = Some 0)\<rparr>"

text \<open>\<open>Number(s)\<close> on strings of digits; the empty string is 0, anything else \<open>NaN\<close>.\<close>

definition decimalStrNumber :: "string \<Rightarrow> real option" where
  "decimalStrNumber s =
     (let t = trim s
      in if t = [] then Some 0
         else if list_all isDigit t then Some (real (digitsValue t))
         else None)"

text \<open>\<open>String(n)\<close> for a natural number.\<close>

fun natText :: "nat \<Rightarrow> string" where
  "natText n =
     (if n < 10 then [''0123456789'' ! n]
      else natText (n div 10) @ [''0123456789'' ! (n mod 10)])"

declare natText.simps [simp del]

definition decimalNumText :: "real \<Rightarrow> string" where
  "decimalNumText r = natText (nat \<lfloor>r\<rfloor>)"

text \<open>
  The mapper: the discount as the adapter computes it, tax and shipping unknown
  (the order model carries neither), the rows the line items themselves, none for
  an order without line items.
\<close>

definition simpleMapper :: "shopify_order \<Rightarrow> line_item mapped" where
  "simpleMapper ord =
     \<lparr>dealFields =
        [(''TITLE'', Str (''Order #'' @ jsString decimalNumText (order_id ord))),
         (''UF_SHOPIFY_TOTAL_DISCOUNT'',
            (case totalDiscount decimalArith ord of
               None \<Rightarrow> Null
             | Some None \<Rightarrow> NaN
             | Some (Some r) \<Rightarrow> Num r)),
         (''UF_SHOPIFY_TOTAL_TAX'', Null),
         (''UF_SHOPIFY_SHIPPING_PRICE'', Null)],
      productRows = Some (case line_items ord of None \<Rightarrow> [] | Some items \<Rightarrow> items)\<rparr>"

definition simpleStageId :: "string option \<Rightarrow> jsv \<Rightarrow> jsv \<Rightarrow> jsv" where
  "simpleStageId fs category currentStage =
     (if fs = Some ''paid'' then Str ''WON''
      else if fs = Some ''refunded'' \<or> fs = Some ''voided'' \<or> fs = Some ''cancelled''
      then Str ''LOSE''
      else currentStage)"

definition simplePaymentStatus :: "string option \<Rightarrow> jsv" where
  "simplePaymentStatus fs = (case fs of None \<Rightarrow> Null | Some t \<Rightarrow> Str t)"

record memory_crm =
  crm_deals :: "crm_deal list"
  crm_rows :: "(jsv \<times> line_item list) list"

definition memList :: "list_params \<Rightarrow> memory_crm \<Rightarrow> (exn + crm_deal list option) \<times> memory_crm" where
  "memList p w =
     (let ds = (case filter_order_id p of
                  None \<Rightarrow> crm_deals w
                | Some k \<Rightarrow>
                    filter (\<lambda>d. jsString decimalNumText (UF_SHOPIFY_ORDER_ID d) = k)
                      (crm_deals w))
      in (Inr (Some (case limit_n p of None \<Rightarrow> ds | Some n \<Rightarrow> take n ds)), w))"

definition memAdd :: "obj \<Rightarrow> memory_crm \<Rightarrow> (exn + add_response) \<times> memory_crm" where
  "memAdd flds w =
     (let n = Suc (length (crm_deals w))
      in (Inr \<lparr>result = Num (real n), json = ''{result}''\<rparr>,
          w\<lparr>crm_deals :=
               \<lparr>ID = Num (real n), CATEGORY_ID = obj_get flds ''CATEGORY_ID'',
                STAGE_ID = obj_get flds ''STAGE_ID'', DATE_CREATE = n,
                UF_SHOPIFY_ORDER_ID = obj_get flds ''UF_SHOPIFY_ORDER_ID''\<rparr> # crm_deals w\<rparr>))"

definition memUpdate :: "jsv \<Rightarrow> obj \<Rightarrow> memory_crm \<Rightarrow> (exn + unit) \<times> memory_crm" where
  "memUpdate i flds w =
     (Inr (),
      w\<lparr>crm_deals :=
           map (\<lambda>d. if ID d = i
                     then d\<lparr>CATEGORY_ID := (if ''CATEGORY_ID'' \<in> set (obj_keys flds)
                                             then obj_get flds ''CATEGORY_ID'' else CATEGORY_ID d),
                            STAGE_ID := (if ''STAGE_ID'' \<in> set (obj_keys flds)
                                          then obj_get flds ''STAGE_ID'' else STAGE_ID d)\<rparr>
                     else d)
             (crm_deals w)\<rparr>)"

definition memSetRows ::
  "jsv \<Rightarrow> line_item list \<Rightarrow> memory_crm \<Rightarrow> (exn + unit) \<times> memory_crm" where
  "memSetRows i rows w = (Inr (), w\<lparr>crm_rows := AList.update i rows (crm_rows w)\<rparr>)"

definition memUpsertContact ::
  "string \<Rightarrow> shopify_order \<Rightarrow> memory_crm \<Rightarrow> (exn + jsv) \<times> memory_crm" where
  "memUpsertContact base ord w = (Inr Null, w)"

definition memDeps :: "(memory_crm, line_item) deps" where
  "memDeps =
     \<lparr>numText = decimalNumText,
      strNumber = decimalStrNumber,
      mapShopifyOrderToBitrixDeal = simpleMapper,
      financialStatusToStageId = simpleStageId,
      financialStatusToPaymentStatus = simplePaymentStatus,
      CATEGORY_PREORDER = Num 8,
      CATEGORY_STOCK = Num 2,
      crm_deal_list = memList,
      crm_deal_add = memAdd,
      crm_deal_update = memUpdate,
      crm_deal_productrows_set = memSetRows,
      getBitrixWebhookBase = Inr ''https://crm.example/rest'',
      upsertBitrixContact = memUpsertContact\<rparr>"

text \<open>
  Three variants: the row call throws; the field update throws; the add call
  answers with no result.
\<close>

definition rowsFailDeps :: "(memory_crm, line_item) deps" where
  "rowsFailDeps =
     memDeps\<lparr>crm_deal_productrows_set := (\<lambda>i rows w. (Inl (Error ''rows rejected''), w))\<rparr>"

definition updateFailDeps :: "(memory_crm, line_item) deps" where
  "updateFailDeps =
     memDeps\<lparr>crm_deal_update := (\<lambda>i flds w. (Inl (Error ''update rejected''), w))\<rparr>"

definition noResult :: add_response where
  "noResult = \<lparr>result = Null, json = ''{error}''\<rparr>"

definition addFailDeps :: "(memory_crm, line_item) deps" where
  "addFailDeps = memDeps\<lparr>crm_deal_add := (\<lambda>flds w. (Inr noResult, w))\<rparr>"

definition emptyState :: "(memory_crm, line_item) state" where
  "emptyState = \<lparr>world = \<lparr>crm_deals = [], crm_rows = []\<rparr>, trace = [], storage = []\<rparr>"

definition shirt :: line_item where
  "shirt = \<lparr>title = Str ''Shirt'', quantity = Num 2, price = Str ''19.90''\<rparr>"

definition order1001 :: shopify_order where
  "order1001 =
     \<lparr>order_id = Num 1001, financial_status = Some ''paid'', order_tags = TagString ''vip, Pre-Order'',
      line_items = Some [shirt], discount_codes = Some [], total_discounts = Str ''5.00'',
      customer = Some \<lparr>first_name = Str '' Ada'', last_name = Str ''Lovelace ''\<rparr>,
      billing_address = None\<rparr>"

definition order1002 :: shopify_order where
  "order1002 =
     \<lparr>order_id = Num 1002, financial_status = Some ''partially_refunded'', order_tags = NoTags,
      line_items = Some [], discount_codes = Some [\<lparr>amount = Str ''2.50''\<rparr>, \<lparr>amount = Str ''1.50''\<rparr>],
      total_discounts = Str ''9.00'',
      customer = None,
      billing_address = Some \<lparr>first_name = Str ''Grace'', last_name = Null\<rparr>\<rparr>"

text \<open>An order whose customer names are white space only.\<close>

definition order1003 :: shopify_order where
  "order1003 =
     order1002\<lparr>order_id := Num 1003,
       customer := Some \<lparr>first_name = Str [CHR 0xA0], last_name = Str [CHR 0x09]\<rparr>\<rparr>"

definition getRequest :: request where
  "getRequest =
     \<lparr>req_method = ''GET'', headers = [''x-shopify-topic'' \<mapsto> ''orders/create''],
      req_body = Some order1001\<rparr>"

definition createdRequest :: request where
  "createdRequest =
     \<lparr>req_method = ''POST'', headers = [''x-shopify-topic'' \<mapsto> ''orders/create''],
      req_body = Some order1001\<rparr>"

definition updatedRequest :: request where
  "updatedRequest =
     \<lparr>req_method = ''POST'', headers = [''x-shopify-topic'' \<mapsto> ''orders/updated''],
      req_body = Some order1001\<rparr>"

text \<open>The state after a first \<open>orders/create\<close> delivery of order 1001 to the empty CRM.\<close>

definition afterFirstCreate :: "(memory_crm, line_item) state" where
  "afterFirstCreate = snd (handleOrderCreated memDeps order1001 emptyState)"

definition createdDeal1001 :: crm_deal where
  "createdDeal1001 =
     \<lparr>ID = Num 1, CATEGORY_ID = Undefined, STAGE_ID = Undefined, DATE_CREATE = 1,
      UF_SHOPIFY_ORDER_ID = Str ''1001''\<rparr>"

text \<open>Order 1001 after its line items were removed.\<close>

definition order1001Emptied :: shopify_order where
  "order1001Emptied = order1001\<lparr>financial_status := Some ''refunded'', line_items := Some []\<rparr>"

text \<open>A CRM that holds one deal for order 1002, and one that holds two deals for order 1001.\<close>

definition deal1002 :: crm_deal where
  "deal1002 =
     \<lparr>ID = Num 7, CATEGORY_ID = Num 2, STAGE_ID = Str ''WON'', DATE_CREATE = 7,
      UF_SHOPIFY_ORDER_ID = Str ''1002''\<rparr>"

definition oneDealState :: "(memory_crm, line_item) state" where
  "oneDealState = \<lparr>world = \<lparr>crm_deals = [deal1002], crm_rows = []\<rparr>, trace = [], storage = []\<rparr>"

definition olderDeal :: crm_deal where
  "olderDeal =
     \<lparr>ID = Num 3, CATEGORY_ID = Num 8, STAGE_ID = Str ''NEW'', DATE_CREATE = 3,
      UF_SHOPIFY_ORDER_ID = Str ''1001''\<rparr>"

definition newerDeal :: crm_deal where
  "newerDeal =
     \<lparr>ID = Num 5, CATEGORY_ID = Num 8, STAGE_ID = Str ''NEW'', DATE_CREATE = 5,
      UF_SHOPIFY_ORDER_ID = Num 1001\<rparr>"

definition duplicateState :: "(memory_crm, line_item) state" where
  "duplicateState =
     \<lparr>world = \<lparr>crm_deals = [newerDeal, olderDeal], crm_rows = [(Num 3, [shirt])]\<rparr>,
      trace = [], storage = []\<rparr>"

section \<open>Facts about the helpers\<close>

lemma foldl_sumLeft:
  "foldl (\<lambda>sum code. addNum A sum (f code)) running cs = sumLeft A running (map f cs)"
  by (induction cs arbitrary: running) simp_all

lemma dropEnd_decomp: "xs = rev (dropWhile P (rev xs)) @ rev (takeWhile P (rev xs))"
proof -
  have "rev (dropWhile P (rev xs)) @ rev (takeWhile P (rev xs)) =
        rev (takeWhile P (rev xs) @ dropWhile P (rev xs))"
    by (simp only: rev_append)
  also have "\<dots> = rev (rev xs)" by (simp only: takeWhile_dropWhile_id)
  finally show ?thesis by simp
qed

text \<open>\<open>trim\<close> takes white space, and only white space, from both ends.\<close>

lemma trim_decomp:
  "\<exists>pre suf. s = pre @ trim s @ suf \<and> list_all isWhitespace pre \<and> list_all isWhitespace suf"
proof -
  let ?t = "dropWhile isWhitespace s"
  have "s = takeWhile isWhitespace s @ ?t" by simp
  also have "?t = trim s @ rev (takeWhile isWhitespace (rev ?t))"
    unfolding trim_def by (rule dropEnd_decomp)
  finally have "s = takeWhile isWhitespace s @ trim s @ rev (takeWhile isWhitespace (rev ?t))" .
  moreover have "list_all isWhitespace (takeWhile isWhitespace s)"
    by (simp add: list_all_iff) (meson set_takeWhileD)
  moreover have "list_all isWhitespace (rev (takeWhile isWhitespace (rev ?t)))"
    by (simp add: list_all_iff) (meson set_takeWhileD)
  ultimately show ?thesis by blast
qed

lemma trim_last: "trim s \<noteq> [] \<Longrightarrow> \<not> isWhitespace (last (trim s))"
proof -
  assume ne: "trim s \<noteq> []"
  let ?d = "dropWhile isWhitespace (rev (dropWhile isWhitespace s))"
  from ne have d: "?d \<noteq> []" by (simp add: trim_def)
  then have "\<not> isWhitespace (hd ?d)" by (rule hd_dropWhile)
  moreover from d have "last (trim s) = hd ?d" by (simp add: trim_def last_rev)
  ultimately show ?thesis by simp
qed

lemma trim_hd: "trim s \<noteq> [] \<Longrightarrow> \<not> isWhitespace (hd (trim s))"
proof -
  assume ne: "trim s \<noteq> []"
  let ?t = "dropWhile isWhitespace s"
  have dec: "?t = trim s @ rev (takeWhile isWhitespace (rev ?t))"
    unfolding trim_def by (rule dropEnd_decomp)
  have t: "?t \<noteq> []"
  proof
    assume "?t = []"
    then have "trim s = []" unfolding trim_def by (simp only: rev.simps dropWhile.simps)
    with ne show False by simp
  qed
  from dec ne have "hd ?t = hd (trim s)" by (metis hd_append2)
  moreover from t have "\<not> isWhitespace (hd ?t)" by (rule hd_dropWhile)
  ultimately show ?thesis by simp
qed

lemma joinedName_trimmed:
  "joinedName nt p = Some n \<Longrightarrow>
     n = trim (nameText nt (first_name p) @ '' '' @ nameText nt (last_name p)) \<and> n \<noteq> []"
  by (auto simp: joinedName_def Let_def split: if_splits)

section \<open>Facts about sequencing, the trace and objects\<close>

lemma calls_append: "calls (xs @ ys) = calls xs @ calls ys"
  by (induction xs rule: calls.induct) simp_all

lemma io_bindE:
  assumes "io_bind m f s = (r, s')"
  obtains (throw) e where "m s = (Inl e, s')" and "r = Inl e"
        | (cont) x s1 where "m s = (Inr x, s1)" and "f x s1 = (r, s')"
  using assms by (auto simp: io_bind_def split: prod.splits sum.splits)

lemma io_catchE:
  assumes "io_catch m h s = (r, s')"
  obtains (ok) x where "m s = (Inr x, s')" and "r = Inr x"
        | (caught) e s1 where "m s = (Inl e, s1)" and "h e s1 = (r, s')"
  using assms by (auto simp: io_catch_def split: prod.splits sum.splits)

lemma io_return_run: "io_return x s = (r, s') \<longleftrightarrow> r = Inr x \<and> s' = s"
  by (auto simp: io_return_def)

lemma io_throw_run: "io_throw e s = (r, s') \<longleftrightarrow> r = Inl e \<and> s' = s"
  by (auto simp: io_throw_def)

lemma emit_run:
  "emit ev s = (r, s') \<longleftrightarrow> r = Inr () \<and> s' = s\<lparr>trace := trace s @ [ev]\<rparr>"
  by (auto simp: emit_def)

lemma gateway_run:
  "gateway c f s = (r, s') \<longleftrightarrow>
     fst (f (world s)) = r \<and> s' = s\<lparr>world := snd (f (world s)), trace := trace s @ [Call c]\<rparr>"
  by (auto simp: gateway_def split: prod.splits)

lemma filter_map_DealList:
  "filter isDealUpdate (map DealList ps) = []"
  "filter isMutation (map DealList ps) = []"
  "filter isDealAdd (map DealList ps) = []"
  by (induction ps) simp_all

lemma obj_get_update:
  "obj_get (AList.update k v ob) k' = (if k' = k then v else obj_get ob k')"
  by (simp add: obj_get_def update_conv')

lemma obj_keys_update: "set (obj_keys (AList.update k v ob)) = insert k (set (obj_keys ob))"
  using dom_update [of k v ob] by (simp add: obj_keys_def)

lemma lower_partially_refunded: "toLowerCase ''partially_refunded'' = ''partially_refunded''"
  by (simp add: toLowerCase_def lowerChar_def upperLetters_def lowerLetters_def)

section \<open>What the blocks of the handlers do\<close>

text \<open>The contact upsert never throws; it issues at most the one contact call.\<close>

lemma upsertContact_run:
  assumes "upsertContact env ord flds s = (r, s')"
  shows "r = Inr flds \<or> (\<exists>c. r = Inr (AList.update ''CONTACT_ID'' c flds))"
    and "calls (trace s') = calls (trace s) \<or>
         (\<exists>b. calls (trace s') = calls (trace s) @ [ContactUpsert b ord])"
    and "storage s' = storage s"
  using assms unfolding upsertContact_def callContactUpsert_def
  by (auto elim!: io_bindE io_catchE
           simp: io_return_run io_throw_run emit_run gateway_run calls_append
           split: sum.splits if_splits)

lemma upsertContact_adds:
  assumes "upsertContact env ord flds s = (r, s')"
  shows "filter isDealAdd (calls (trace s')) = filter isDealAdd (calls (trace s))"
    and "filter isDealUpdate (calls (trace s')) = filter isDealUpdate (calls (trace s))"
  using upsertContact_run(2) [OF assms] by auto

lemma addDeal_run:
  assumes "addDeal env flds s = (r, s')"
  shows "calls (trace s') = calls (trace s) @ [DealAdd flds]"
    and "storage s' = storage s"
    and "\<And>resp. fst (crm_deal_add env flds (world s)) = Inr resp \<Longrightarrow> \<not> truthy (result resp)
           \<Longrightarrow> r = Inl (Error (''Failed to create deal: '' @ json resp))"
    and "\<And>i. r = Inr i \<Longrightarrow> truthy i"
  using assms unfolding addDeal_def callDealAdd_def
  by (auto elim!: io_bindE
           simp: io_return_run io_throw_run emit_run gateway_run calls_append
           split: if_splits)

lemma addDeal_falsy:
  assumes "addDeal env flds s = (r, s')"
    and "\<forall>flds w. \<exists>resp. fst (crm_deal_add env flds w) = Inr resp \<and> \<not> truthy (result resp)"
  shows "\<exists>resp :: add_response.
           \<not> truthy (result resp) \<and> r = Inl (Error (''Failed to create deal: '' @ json resp))"
proof -
  from assms(2) obtain resp
    where resp: "fst (crm_deal_add env flds (world s)) = Inr resp" "\<not> truthy (result resp)"
    by blast
  from addDeal_run(3) [OF assms(1) resp]
  have "r = Inl (Error (''Failed to create deal: '' @ json resp))" .
  with resp(2) show ?thesis by blast
qed

lemma findDeals_run:
  assumes "findDeals env ord s = (r, s')"
  shows "\<exists>allDeals deals. r = Inr (allDeals, deals)"
    and "\<exists>ps. calls (trace s') = calls (trace s) @ map DealList ps"
    and "storage s' = storage s"
proof -
  let ?q = "filteredQuery (jsString (numText env) (order_id ord))"
  have "(\<exists>allDeals deals. r = Inr (allDeals, deals)) \<and>
        (calls (trace s') = calls (trace s) @ map DealList [?q] \<or>
         calls (trace s') = calls (trace s) @ map DealList [?q, recentQuery]) \<and>
        storage s' = storage s"
    using assms unfolding findDeals_def callDealList_def
    by (auto elim!: io_bindE io_catchE
             simp: io_return_run io_throw_run emit_run gateway_run calls_append Let_def
             split: if_splits)
  then show "\<exists>allDeals deals. r = Inr (allDeals, deals)"
    and "\<exists>ps. calls (trace s') = calls (trace s) @ map DealList ps"
    and "storage s' = storage s"
    by blast+
qed

lemma updateExistingDeal_run:
  assumes "updateExistingDeal env ord deal s = (r, s')"
  shows "(\<exists>e. r = Inl e
            \<and> fst (crm_deal_update env (ID deal) (updateFields env ord deal) (world s)) = Inl e
            \<and> calls (trace s') =
                calls (trace s) @ [DealUpdate (ID deal) (updateFields env ord deal)])
       \<or> (r = Inr (ID deal)
            \<and> fst (crm_deal_update env (ID deal) (updateFields env ord deal) (world s)) = Inr ()
            \<and> calls (trace s') =
                calls (trace s) @
                  [DealUpdate (ID deal) (updateFields env ord deal),
                   ProductRowsSet (ID deal)
                     (case productRows (mapShopifyOrderToBitrixDeal env ord) of
                        None \<Rightarrow> [] | Some rows \<Rightarrow> rows)])"
  using assms unfolding updateExistingDeal_def callDealUpdate_def callProductRowsSet_def
  by (auto elim!: io_bindE io_catchE
           simp: io_return_run io_throw_run emit_run gateway_run calls_append)

lemma resolveDeals_found:
  assumes "resolveDeals env ord (allDeals, deal # rest) s1 = (r, s')"
  shows "(\<exists>e. r = Inl e
            \<and> fst (crm_deal_update env (ID deal) (updateFields env ord deal) (world s1)) = Inl e
            \<and> calls (trace s') =
                calls (trace s1) @ [DealUpdate (ID deal) (updateFields env ord deal)])
       \<or> (r = Inr (ID deal)
            \<and> fst (crm_deal_update env (ID deal) (updateFields env ord deal) (world s1)) = Inr ()
            \<and> calls (trace s') =
                calls (trace s1) @
                  [DealUpdate (ID deal) (updateFields env ord deal),
                   ProductRowsSet (ID deal)
                     (case productRows (mapShopifyOrderToBitrixDeal env ord) of
                        None \<Rightarrow> [] | Some rows \<Rightarrow> rows)])"
proof -
  let ?W = "ConsoleWarn ''Using exact matches only'' :: 'b event"
  let ?E = "ConsoleError ''DATA ERROR: several deals for one order'' :: 'b event"
  from assms
  have "\<exists>es \<in> set [[], [?W], [?E], [?W, ?E]].
          updateExistingDeal env ord deal (s1\<lparr>trace := trace s1 @ es\<rparr>) = (r, s')"
    unfolding resolveDeals_def
    by (cases rest)
       (auto elim!: io_bindE simp: io_return_run emit_run split: if_splits)
  then obtain es where mem: "es \<in> set [[], [?W], [?E], [?W, ?E]]"
    and run: "updateExistingDeal env ord deal (s1\<lparr>trace := trace s1 @ es\<rparr>) = (r, s')"
    by blast
  from mem have es: "calls es = []" by auto
  from updateExistingDeal_run [OF run] es show ?thesis
    by (simp add: calls_append)
qed

lemma handleOrderUpdated_found:
  assumes "findDeals env ord s = (Inr (allDeals, deal # rest), s1)"
    and "handleOrderUpdated env ord s = (r, s')"
  shows "resolveDeals env ord (allDeals, deal # rest) s1 = (r, s')"
  using assms unfolding handleOrderUpdated_def by (auto simp: io_bind_def)

text \<open>A run of \<open>handleOrderUpdated\<close> once the search has found deals.\<close>

lemma handleOrderUpdated_existing:
  assumes found: "findDeals env ord s = (Inr (allDeals, deal # rest), s1)"
    and run: "handleOrderUpdated env ord s = (r, s')"
  shows "(\<exists>e. r = Inl e
            \<and> fst (crm_deal_update env (ID deal) (updateFields env ord deal) (world s1)) = Inl e
            \<and> calls (trace s') =
                calls (trace s1) @ [DealUpdate (ID deal) (updateFields env ord deal)])
       \<or> (r = Inr (ID deal)
            \<and> fst (crm_deal_update env (ID deal) (updateFields env ord deal) (world s1)) = Inr ()
            \<and> calls (trace s') =
                calls (trace s1) @
                  [DealUpdate (ID deal) (updateFields env ord deal),
                   ProductRowsSet (ID deal)
                     (case productRows (mapShopifyOrderToBitrixDeal env ord) of
                        None \<Rightarrow> [] | Some rows \<Rightarrow> rows)])"
  by (rule resolveDeals_found [OF handleOrderUpdated_found [OF found run]])

lemma handleOrderUpdated_new:
  assumes found: "findDeals env ord s = (Inr (allDeals, []), s1)"
    and run: "handleOrderUpdated env ord s = (r, s')"
  shows "createNewDeal env ord s1 = (r, s')"
  using assms unfolding handleOrderUpdated_def resolveDeals_def
  by (simp add: io_bind_def io_return_def)

lemma updateFields_keys:
  "{''OPPORTUNITY'', ''UF_SHOPIFY_TOTAL_DISCOUNT'', ''UF_SHOPIFY_TOTAL_TAX'',
    ''UF_SHOPIFY_SHIPPING_PRICE'', ''UF_CRM_1739183959976''}
     \<subseteq> set (obj_keys (updateFields env ord deal))"
  by (auto simp: updateFields_def Let_def obj_keys_update) (simp_all add: obj_keys_def)

lemma updateFields_stage:
  "''STAGE_ID'' \<in> set (obj_keys (updateFields env ord deal)) \<longleftrightarrow>
     (case financial_status ord of None \<Rightarrow> [] | Some fs \<Rightarrow> toLowerCase fs)
       \<noteq> ''partially_refunded''"
  by (auto simp: updateFields_def Let_def obj_keys_update) (simp_all add: obj_keys_def)

lemma updateFields_values:
  "obj_get (updateFields env ord deal) ''OPPORTUNITY'' =
     obj_get (dealFields (mapShopifyOrderToBitrixDeal env ord)) ''OPPORTUNITY''"
  "obj_get (updateFields env ord deal) ''UF_SHOPIFY_TOTAL_DISCOUNT'' =
     js_or (obj_get (dealFields (mapShopifyOrderToBitrixDeal env ord)) ''UF_SHOPIFY_TOTAL_DISCOUNT'')
       (Num 0)"
  "obj_get (updateFields env ord deal) ''UF_SHOPIFY_TOTAL_TAX'' =
     js_or (obj_get (dealFields (mapShopifyOrderToBitrixDeal env ord)) ''UF_SHOPIFY_TOTAL_TAX'')
       (Num 0)"
  "obj_get (updateFields env ord deal) ''UF_SHOPIFY_SHIPPING_PRICE'' =
     js_or (obj_get (dealFields (mapShopifyOrderToBitrixDeal env ord)) ''UF_SHOPIFY_SHIPPING_PRICE'')
       (Num 0)"
  "obj_get (updateFields env ord deal) ''UF_CRM_1739183959976'' =
     financialStatusToPaymentStatus env (financial_status ord)"
  by (simp_all add: updateFields_def Let_def obj_get_update) (simp_all add: obj_get_def)

text \<open>
  The tail that both create paths share: the contact upsert, \<open>addDeal\<close>, then a
  block \<open>B\<close> for the rows. An exception of \<open>addDeal\<close> leaves the run at once.
\<close>

lemma create_tail_run:
  assumes run: "io_bind (upsertContact env ord F0)
                  (\<lambda>flds. io_bind (addDeal env flds)
                     (\<lambda>dealId. io_bind (B dealId) (\<lambda>_. io_return dealId))) s = (r, s')"
  shows "\<exists>flds s2 r2 s3.
           addDeal env flds s2 = (r2, s3)
           \<and> (flds = F0 \<or> (\<exists>c. flds = AList.update ''CONTACT_ID'' c F0))
           \<and> filter isDealAdd (calls (trace s2)) = filter isDealAdd (calls (trace s))
           \<and> filter isDealUpdate (calls (trace s2)) = filter isDealUpdate (calls (trace s))
           \<and> (case r2 of
                 Inl e \<Rightarrow> r = Inl e \<and> s' = s3
               | Inr i \<Rightarrow> (\<exists>rb. B i s3 = (rb, s')
                             \<and> (case rb of Inl e \<Rightarrow> r = Inl e | Inr _ \<Rightarrow> r = Inr i)))"
  using run
proof (cases rule: io_bindE)
  case (throw e)
  with upsertContact_run(1) [of env ord F0 s "Inl e" s'] show ?thesis by auto
next
  case (cont flds s2)
  from upsertContact_run(1) [OF cont(1)]
  have f: "flds = F0 \<or> (\<exists>c. flds = AList.update ''CONTACT_ID'' c F0)" by auto
  note c = upsertContact_adds [OF cont(1)]
  from cont(2) show ?thesis
  proof (cases rule: io_bindE)
    case (throw e)
    with f c show ?thesis by (intro exI [of _ flds] exI [of _ s2] exI [of _ "Inl e"] exI [of _ s']) simp
  next
    case (cont i s3)
    from cont(2) have "\<exists>rb. B i s3 = (rb, s')
                             \<and> (case rb of Inl e \<Rightarrow> r = Inl e | Inr _ \<Rightarrow> r = Inr i)"
      by (auto elim!: io_bindE simp: io_return_run)
    with f c cont(1) show ?thesis
      by (intro exI [of _ flds] exI [of _ s2] exI [of _ "Inr i"] exI [of _ s3]) simp
  qed
qed

lemma rows_nonblocking_run:
  assumes "(if length rows > 0
            then io_catch (callProductRowsSet env i rows) (\<lambda>productRowsError. emit (ConsoleError msg))
            else io_return ()) s = (rb, s')"
  shows "rb = Inr ()"
    and "filter isDealAdd (calls (trace s')) = filter isDealAdd (calls (trace s))"
    and "filter isDealUpdate (calls (trace s')) = filter isDealUpdate (calls (trace s))"
  using assms
  by (auto elim!: io_catchE
           simp: callProductRowsSet_def io_return_run emit_run gateway_run calls_append
           split: if_splits)

lemma handleOrderCreated_match:
  assumes "handleOrderCreated env ord s = (r, s')"
    and "fst (crm_deal_list env (existingDealCheck (jsString (numText env) (order_id ord)))
            (world s)) = Inr res"
    and "find (\<lambda>d. jsString (numText env) (UF_SHOPIFY_ORDER_ID d) =
                     jsString (numText env) (order_id ord))
           (case res of None \<Rightarrow> [] | Some ds \<Rightarrow> ds) = Some m"
  shows "r = Inr (ID m)"
    and "calls (trace s') =
           calls (trace s) @
             [DealList (existingDealCheck (jsString (numText env) (order_id ord)))]"
  using assms
  by (auto simp: handleOrderCreated_def Let_def callDealList_def gateway_def io_bind_def
                 io_return_def calls_append split: prod.splits)

lemma handleOrderCreated_run:
  assumes run: "handleOrderCreated env ord s = (r, s')"
    and look: "fst (crm_deal_list env (existingDealCheck (jsString (numText env) (order_id ord)))
                 (world s)) = Inr res"
    and nomatch: "find (\<lambda>d. jsString (numText env) (UF_SHOPIFY_ORDER_ID d) =
                         jsString (numText env) (order_id ord))
                    (case res of None \<Rightarrow> [] | Some ds \<Rightarrow> ds) = None"
  shows "(\<exists>e. r = Inl e \<and> productRows (mapShopifyOrderToBitrixDeal env ord) = None
              \<and> calls (trace s') =
                  calls (trace s) @
                    [DealList (existingDealCheck (jsString (numText env) (order_id ord)))])
       \<or> (\<exists>flds s2 r2 s3.
             addDeal env flds s2 = (r2, s3)
             \<and> obj_get flds ''UF_SHOPIFY_ORDER_ID'' = Str (jsString (numText env) (order_id ord))
             \<and> filter isDealAdd (calls (trace s2)) = filter isDealAdd (calls (trace s))
             \<and> filter isDealUpdate (calls (trace s2)) = filter isDealUpdate (calls (trace s))
             \<and> filter isDealAdd (calls (trace s')) = filter isDealAdd (calls (trace s3))
             \<and> filter isDealUpdate (calls (trace s')) = filter isDealUpdate (calls (trace s3))
             \<and> (case r2 of Inl e \<Rightarrow> r = Inl e | Inr i \<Rightarrow> r = Inr i))"
proof -
  let ?q = "existingDealCheck (jsString (numText env) (order_id ord))"
  let ?s1 = "s\<lparr>world := snd (crm_deal_list env ?q (world s)), trace := trace s @ [Call (DealList ?q)]\<rparr>"
  have l: "callDealList env ?q s = (Inr res, ?s1)"
    using look by (simp add: callDealList_def gateway_run)
  show ?thesis
  proof (cases "productRows (mapShopifyOrderToBitrixDeal env ord)")
    case None
    with run l nomatch show ?thesis
      by (auto simp: handleOrderCreated_def Let_def io_bind_def io_throw_def calls_append)
  next
    case (Some rows)
    let ?B = "\<lambda>dealId. if length rows > 0
                then io_catch (callProductRowsSet env dealId rows)
                       (\<lambda>productRowsError. emit (ConsoleError ''Product rows error (non-blocking)''))
                else io_return ()"
    let ?F0 = "AList.update ''UF_SHOPIFY_ORDER_ID'' (Str (jsString (numText env) (order_id ord)))
                 (dealFields (mapShopifyOrderToBitrixDeal env ord))"
    from run l nomatch Some
    have tail: "io_bind (upsertContact env ord ?F0)
                  (\<lambda>flds. io_bind (addDeal env flds)
                     (\<lambda>dealId. io_bind (?B dealId) (\<lambda>_. io_return dealId))) ?s1 = (r, s')"
      by (simp add: handleOrderCreated_def Let_def io_bind_def)
    from create_tail_run [OF tail] obtain flds s2 r2 s3
      where a: "addDeal env flds s2 = (r2, s3)"
        and f: "flds = ?F0 \<or> (\<exists>c. flds = AList.update ''CONTACT_ID'' c ?F0)"
        and c2: "filter isDealAdd (calls (trace s2)) = filter isDealAdd (calls (trace ?s1))"
                "filter isDealUpdate (calls (trace s2)) = filter isDealUpdate (calls (trace ?s1))"
        and r2: "case r2 of
                   Inl e \<Rightarrow> r = Inl e \<and> s' = s3
                 | Inr i \<Rightarrow> (\<exists>rb. ?B i s3 = (rb, s')
                               \<and> (case rb of Inl e \<Rightarrow> r = Inl e | Inr _ \<Rightarrow> r = Inr i))"
      by blast
    from f have k: "obj_get flds ''UF_SHOPIFY_ORDER_ID'' = Str (jsString (numText env) (order_id ord))"
      by (auto simp: obj_get_update)
    have fin: "filter isDealAdd (calls (trace s')) = filter isDealAdd (calls (trace s3))
          \<and> filter isDealUpdate (calls (trace s')) = filter isDealUpdate (calls (trace s3))
          \<and> (case r2 of Inl e \<Rightarrow> r = Inl e | Inr i \<Rightarrow> r = Inr i)"
    proof (cases r2)
      case (Inl e)
      with r2 show ?thesis by simp
    next
      case (Inr i)
      with r2 obtain rb where b: "?B i s3 = (rb, s')"
        and rr: "case rb of Inl e \<Rightarrow> r = Inl e | Inr _ \<Rightarrow> r = Inr i"
        by auto
      from rows_nonblocking_run [OF b] rr Inr show ?thesis by simp
    qed
    from a k c2 fin show ?thesis
      by (intro disjI2 exI [of _ flds] exI [of _ s2] exI [of _ r2] exI [of _ s3])
         (simp add: calls_append)
  qed
qed

lemma createNewDeal_run:
  assumes run: "createNewDeal env ord s = (r, s')"
  shows "\<exists>flds s2 r2 s3.
           addDeal env flds s2 = (r2, s3)
           \<and> filter isDealAdd (calls (trace s2)) = filter isDealAdd (calls (trace s))
           \<and> (case r2 of Inl e \<Rightarrow> r = Inl e \<and> s' = s3 | Inr i \<Rightarrow> True)"
proof -
  note tail = run [unfolded createNewDeal_def Let_def]
  from create_tail_run [OF tail] show ?thesis
    by (fastforce split: sum.splits)
qed

lemma storeEvent_block_run:
  assumes "io_catch (io_bind (storeEvent uid now b) (\<lambda>_. io_return ()))
             (\<lambda>storeError. emit (ConsoleError msg)) s = (r, s')"
  shows "r = Inr ()" and "calls (trace s') = calls (trace s)"
  using assms
  by (auto elim!: io_bindE io_catchE
           simp: storeEvent_def io_return_run io_throw_run emit_run calls_append Let_def
           split: option.splits)

lemma topic_log_run:
  assumes "(if c then emit (ConsoleError msg) else io_return ()) s = (r, s')"
  shows "r = Inr ()" and "calls (trace s') = calls (trace s)"
  using assms by (auto simp: io_return_run emit_run calls_append split: if_splits)

text \<open>A POST request: the response follows the outcome of the dispatch.\<close>

lemma handler_post_run:
  assumes post: "req_method req = ''POST''"
    and run: "handler env rid uid now req s = (resp, s')"
  shows "\<exists>sB rd sC.
           calls (trace sB) = calls (trace s)
           \<and> dispatch env (topic req) (req_body req) sB = (rd, sC)
           \<and> calls (trace s') = calls (trace sC)
           \<and> (case rd of
                 Inr _ \<Rightarrow> resp = \<lparr>status = 200, resp_body = SuccessJson rid (topic req)\<rparr>
               | Inl e \<Rightarrow> resp = \<lparr>status = 500, resp_body = ErrorJson (message e) rid\<rparr>)"
proof -
  let ?P = "if topic req = None \<or> topic req = Some []
            then emit (ConsoleError ''NO TOPIC HEADER'') else io_return ()"
  let ?S = "io_catch (io_bind (storeEvent uid now (req_body req)) (\<lambda>_. io_return ()))
              (\<lambda>storeError. emit (ConsoleError ''Failed to store event''))"
  let ?ok = "\<lparr>status = 200, resp_body = SuccessJson rid (topic req)\<rparr>"
  let ?D = "io_bind (dispatch env (topic req) (req_body req)) (\<lambda>_. io_return ?ok)"
  let ?H = "\<lambda>e. io_bind (emit (ConsoleError ''Error''))
                   (\<lambda>_. io_return \<lparr>status = 500, resp_body = ErrorJson (message e) rid\<rparr>)"
  let ?X = "io_bind ?P (\<lambda>_. io_catch (io_bind ?S (\<lambda>_. ?D)) ?H)"
  obtain rx sx where X: "?X s = (rx, sx)" by (cases "?X s")
  with run post have out: "(case rx of Inr rsp \<Rightarrow> resp = rsp | Inl e \<Rightarrow>
                       resp = \<lparr>status = 500, resp_body = ErrorJson (message e) rid\<rparr>)"
    and sx: "s' = sx"
    by (auto simp: handler_def split: sum.splits)
  from X obtain sA where pA: "?P s = (Inr (), sA)"
    and inner: "io_catch (io_bind ?S (\<lambda>_. ?D)) ?H sA = (rx, sx)"
    by (cases rule: io_bindE) (auto dest: topic_log_run(1))
  from topic_log_run(2) [OF pA] have cA: "calls (trace sA) = calls (trace s)" .
  obtain rs sB where S: "?S sA = (rs, sB)" by (cases "?S sA")
  from storeEvent_block_run [OF S] have rs: "rs = Inr ()"
    and cB: "calls (trace sB) = calls (trace sA)" by simp_all
  obtain rd sC where D: "dispatch env (topic req) (req_body req) sB = (rd, sC)"
    by (cases "dispatch env (topic req) (req_body req) sB")
  have "calls (trace sx) = calls (trace sC)
        \<and> (case rd of Inr _ \<Rightarrow> rx = Inr ?ok
            | Inl e \<Rightarrow> rx = Inr \<lparr>status = 500, resp_body = ErrorJson (message e) rid\<rparr>)"
    using inner S rs D
    by (cases rd)
       (auto simp: io_catch_def io_bind_def io_return_def emit_def calls_append)
  with out sx cA cB D show ?thesis
    by (intro exI [of _ sB] exI [of _ rd] exI [of _ sC]) (auto split: sum.splits)
qed

lemma dispatch_run:
  assumes "dispatch env tp b sB = (rd, sC)"
  shows "filter isDealAdd (calls (trace sC)) = filter isDealAdd (calls (trace sB))
       \<or> (\<exists>ord r. (handleOrderCreated env ord sB = (r, sC) \<or> handleOrderUpdated env ord sB = (r, sC))
                  \<and> (case r of Inl e \<Rightarrow> rd = Inl e | Inr _ \<Rightarrow> rd = Inr ()))"
  using assms unfolding dispatch_def handleProductUpdated_def
  by (auto elim!: io_bindE simp: io_return_run io_throw_run split: if_splits option.splits;
      fastforce)

lemma handleOrderCreated_falsy:
  assumes falsy: "\<forall>flds w. \<exists>resp. fst (crm_deal_add env flds w) = Inr resp \<and> \<not> truthy (result resp)"
    and run: "handleOrderCreated env ord s = (r, s')"
    and adds: "filter isDealAdd (calls (trace s')) \<noteq> filter isDealAdd (calls (trace s))"
  shows "\<exists>resp :: add_response.
           \<not> truthy (result resp) \<and> r = Inl (Error (''Failed to create deal: '' @ json resp))"
proof -
  let ?q = "existingDealCheck (jsString (numText env) (order_id ord))"
  let ?find = "\<lambda>res. find (\<lambda>d. jsString (numText env) (UF_SHOPIFY_ORDER_ID d) =
                                jsString (numText env) (order_id ord))
                          (case res of None \<Rightarrow> [] | Some ds \<Rightarrow> ds)"
  show ?thesis
  proof (cases "fst (crm_deal_list env ?q (world s))")
    case (Inl e)
    with run have "calls (trace s') = calls (trace s) @ [DealList ?q]"
      by (auto simp: handleOrderCreated_def Let_def callDealList_def gateway_def io_bind_def
                     calls_append split: prod.splits)
    with adds show ?thesis by simp
  next
    case (Inr res)
    show ?thesis
    proof (cases "?find res")
      case (Some m)
      from handleOrderCreated_match(2) [OF run Inr Some] adds show ?thesis by simp
    next
      case None
      from handleOrderCreated_run [OF run Inr None] adds
      obtain flds s2 r2 s3 where a: "addDeal env flds s2 = (r2, s3)"
        and r: "case r2 of Inl e \<Rightarrow> r = Inl e | Inr i \<Rightarrow> r = Inr i"
        by auto
      from addDeal_falsy [OF a falsy] r show ?thesis by auto
    qed
  qed
qed

lemma handleOrderUpdated_falsy:
  assumes falsy: "\<forall>flds w. \<exists>resp. fst (crm_deal_add env flds w) = Inr resp \<and> \<not> truthy (result resp)"
    and run: "handleOrderUpdated env ord s = (r, s')"
    and adds: "filter isDealAdd (calls (trace s')) \<noteq> filter isDealAdd (calls (trace s))"
  shows "\<exists>resp :: add_response.
           \<not> truthy (result resp) \<and> r = Inl (Error (''Failed to create deal: '' @ json resp))"
proof -
  obtain r1 s1 where f: "findDeals env ord s = (r1, s1)" by (cases "findDeals env ord s")
  from findDeals_run [OF f] obtain allDeals deals ps
    where r1: "r1 = Inr (allDeals, deals)"
      and c1: "calls (trace s1) = calls (trace s) @ map DealList ps" by blast
  show ?thesis
  proof (cases deals)
    case Nil
    from handleOrderUpdated_new [OF f [unfolded r1 Nil] run]
    have "createNewDeal env ord s1 = (r, s')" .
    from createNewDeal_run [OF this] obtain flds s2 r2 s3
      where a: "addDeal env flds s2 = (r2, s3)"
        and r: "case r2 of Inl e \<Rightarrow> r = Inl e \<and> s' = s3 | Inr i \<Rightarrow> True"
      by blast
    from addDeal_falsy [OF a falsy] r show ?thesis by auto
  next
    case (Cons deal rest)
    from handleOrderUpdated_existing [OF f [unfolded r1 Cons] run] c1 adds
    show ?thesis by (auto simp: filter_map_DealList)
  qed
qed

text \<open>The create paths at a response without a result.\<close>

lemma addDeal_falsy_at:
  assumes "fst (crm_deal_add env flds (world s)) = Inr resp" and "\<not> truthy (result resp)"
  shows "fst (addDeal env flds s) = Inl (Error (''Failed to create deal: '' @ json resp))"
    and "calls (trace (snd (addDeal env flds s))) = calls (trace s) @ [DealAdd flds]"
proof -
  obtain r s' where a: "addDeal env flds s = (r, s')" by (cases "addDeal env flds s")
  from addDeal_run(3) [OF a assms] addDeal_run(1) [OF a] a
  show "fst (addDeal env flds s) = Inl (Error (''Failed to create deal: '' @ json resp))"
    and "calls (trace (snd (addDeal env flds s))) = calls (trace s) @ [DealAdd flds]"
    by simp_all
qed

lemma handleOrderCreated_falsy_at:
  assumes "callDealList env (existingDealCheck (jsString (numText env) (order_id ord))) s
             = (Inr res, s1)"
    and "find (\<lambda>d. jsString (numText env) (UF_SHOPIFY_ORDER_ID d) =
                     jsString (numText env) (order_id ord))
           (case res of None \<Rightarrow> [] | Some ds \<Rightarrow> ds) = None"
    and "productRows (mapShopifyOrderToBitrixDeal env ord) = Some rows"
    and "upsertContact env ord
           (AList.update ''UF_SHOPIFY_ORDER_ID'' (Str (jsString (numText env) (order_id ord)))
              (dealFields (mapShopifyOrderToBitrixDeal env ord))) s1 = (Inr flds, s2)"
    and "fst (crm_deal_add env flds (world s2)) = Inr resp"
    and "\<not> truthy (result resp)"
  shows "fst (handleOrderCreated env ord s)
           = Inl (Error (''Failed to create deal: '' @ json resp))
       \<and> calls (trace (snd (handleOrderCreated env ord s))) = calls (trace s2) @ [DealAdd flds]"
proof -
  obtain r s3 where a: "addDeal env flds s2 = (r, s3)" by (cases "addDeal env flds s2")
  from addDeal_falsy_at [OF assms(5,6)] a
  have r: "r = Inl (Error (''Failed to create deal: '' @ json resp))"
    and c: "calls (trace s3) = calls (trace s2) @ [DealAdd flds]" by simp_all
  from assms(1-4) a r have "handleOrderCreated env ord s = (r, s3)"
    by (simp add: handleOrderCreated_def Let_def io_bind_def)
  with r c show ?thesis by simp
qed

lemma handleOrderUpdated_falsy_at:
  assumes "findDeals env ord s = (Inr (allDeals, []), s1)"
    and "upsertContact env ord
           (AList.update ''UF_SHOPIFY_ORDER_ID'' (Str (jsString (numText env) (order_id ord)))
              (AList.update ''CATEGORY_ID'' (categoryId env ord)
                 (dealFields (mapShopifyOrderToBitrixDeal env ord)))) s1 = (Inr flds, s2)"
    and "fst (crm_deal_add env flds (world s2)) = Inr resp"
    and "\<not> truthy (result resp)"
  shows "fst (handleOrderUpdated env ord s)
           = Inl (Error (''Failed to create deal: '' @ json resp))
       \<and> calls (trace (snd (handleOrderUpdated env ord s))) = calls (trace s2) @ [DealAdd flds]"
proof -
  obtain r s3 where a: "addDeal env flds s2 = (r, s3)" by (cases "addDeal env flds s2")
  from addDeal_falsy_at [OF assms(3,4)] a
  have r: "r = Inl (Error (''Failed to create deal: '' @ json resp))"
    and c: "calls (trace s3) = calls (trace s2) @ [DealAdd flds]" by simp_all
  from assms(1,2) a r have "handleOrderUpdated env ord s = (r, s3)"
    by (simp add: handleOrderUpdated_def resolveDeals_def createNewDeal_def Let_def
                  io_bind_def io_return_def)
  with r c show ?thesis by simp
qed

section \<open>The mapper of the Shopify adapter\<close>

text \<open>
  C7. Discount mapping. With a discount-code list that is present and not empty,
  the mapped discount is the sum of the per-code amounts, added from the left to 0
  with the runtime's addition (an amount that is missing, does not parse or is zero
  counts as 0), and a sum that is exactly zero becomes \<open>null\<close>, so a discount that
  is returned is never zero. With the list absent or empty, the mapper falls back
  to the order's aggregate discount field: its parsed value when the field is
  truthy, \<open>null\<close> otherwise. So an order with an empty list and an aggregate
  discount that parses (a positive one in particular) maps to that aggregate value.
\<close>

theorem C7_discount_mapping:
  "(\<forall>cs. discount_codes ord = Some cs \<and> cs \<noteq> [] \<longrightarrow>
       totalDiscount A ord =
         (let total = sumLeft A (zeroNum A)
                        (map (\<lambda>code. orZero A (parseNumber A (amount code))) cs)
          in if isZero A total then None else Some total))
   \<and> (\<forall>cs x. discount_codes ord = Some cs \<and> cs \<noteq> [] \<and> totalDiscount A ord = Some x
         \<longrightarrow> \<not> isZero A x)
   \<and> (discount_codes ord = None \<or> discount_codes ord = Some [] \<longrightarrow>
       totalDiscount A ord =
         (if truthy (total_discounts ord) then parseNumber A (total_discounts ord) else None))
   \<and> (\<forall>t. discount_codes ord = Some [] \<and> total_discounts ord = Str t \<and> t \<noteq> []
         \<and> \<not> isNaN A (parseFloat A t) \<longrightarrow> totalDiscount A ord = Some (parseFloat A t))
   \<and> (\<forall>r. discount_codes ord = Some [] \<and> total_discounts ord = Num r \<and> r \<noteq> 0
         \<and> \<not> isNaN A (numValue A r) \<longrightarrow> totalDiscount A ord = Some (numValue A r))"
proof -
  have codes: "totalDiscount A ord =
         (let total = sumLeft A (zeroNum A)
                        (map (\<lambda>code. orZero A (parseNumber A (amount code))) cs)
          in if isZero A total then None else Some total)"
    if "discount_codes ord = Some cs \<and> cs \<noteq> []" for cs
  proof -
    from that obtain c cs' where cs: "discount_codes ord = Some (c # cs')" "cs = c # cs'"
      by (cases cs) auto
    show ?thesis
      unfolding totalDiscount_def cs by (simp add: foldl_sumLeft Let_def)
  qed
  have nonzero: "\<not> isZero A x"
    if "discount_codes ord = Some cs \<and> cs \<noteq> [] \<and> totalDiscount A ord = Some x" for cs x
    using that codes [of cs] by (auto simp: Let_def split: if_splits)
  have fallback: "totalDiscount A ord =
         (if truthy (total_discounts ord) then parseNumber A (total_discounts ord) else None)"
    if "discount_codes ord = None \<or> discount_codes ord = Some []"
    using that by (auto simp: totalDiscount_def)
  have parsed: "totalDiscount A ord = Some (parseFloat A t)"
    if "discount_codes ord = Some [] \<and> total_discounts ord = Str t \<and> t \<noteq> []
         \<and> \<not> isNaN A (parseFloat A t)" for t
    using that by (simp add: totalDiscount_def parseNumber_def)
  have numeric: "totalDiscount A ord = Some (numValue A r)"
    if "discount_codes ord = Some [] \<and> total_discounts ord = Num r \<and> r \<noteq> 0
         \<and> \<not> isNaN A (numValue A r)" for r
    using that by (simp add: totalDiscount_def parseNumber_def)
  from codes nonzero fallback parsed numeric show ?thesis by blast
qed

lemma decimalParseFloat_examples:
  "decimalParseFloat ''5.00'' = Some 5"
  "decimalParseFloat ''2.50'' = Some (5 / 2)"
  "decimalParseFloat ''1.50'' = Some (3 / 2)"
  by (simp_all add: decimalParseFloat_def isDigit_def digitsValue_def digitValue_def
        isWhitespace_def)

theorem C7_discount_mapping_witness:
  "discount_codes order1001 = Some [] \<and> total_discounts order1001 = Str ''5.00''
   \<and> parseFloat decimalArith ''5.00'' = Some 5
   \<and> totalDiscount decimalArith order1001 = Some (Some 5)
   \<and> discount_codes order1002 = Some [\<lparr>amount = Str ''2.50''\<rparr>, \<lparr>amount = Str ''1.50''\<rparr>]
   \<and> totalDiscount decimalArith order1002 = Some (Some 4)
   \<and> \<not> isZero decimalArith (Some 4)"
proof -
  have pf: "parseFloat decimalArith ''5.00'' = Some 5"
    by (simp add: decimalArith_def decimalParseFloat_examples)
  have h1: "discount_codes order1001 = Some [] \<and> total_discounts order1001 = Str ''5.00''
            \<and> ''5.00'' \<noteq> [] \<and> \<not> isNaN decimalArith (parseFloat decimalArith ''5.00'')"
    by (simp add: order1001_def pf) (simp add: decimalArith_def)
  have h2: "discount_codes order1002 = Some [\<lparr>amount = Str ''2.50''\<rparr>, \<lparr>amount = Str ''1.50''\<rparr>]
            \<and> [\<lparr>amount = Str ''2.50''\<rparr>, \<lparr>amount = Str ''1.50''\<rparr>] \<noteq> []"
    by (simp add: order1002_def)
  from C7_discount_mapping [where ord = order1001 and A = decimalArith] h1
  have "totalDiscount decimalArith order1001 = Some (parseFloat decimalArith ''5.00'')"
    by blast
  then have t1: "totalDiscount decimalArith order1001 = Some (Some 5)" by (simp add: pf)
  from C7_discount_mapping [where ord = order1002 and A = decimalArith] h2
  have "totalDiscount decimalArith order1002 =
          (let total = sumLeft decimalArith (zeroNum decimalArith)
                         (map (\<lambda>code. orZero decimalArith (parseNumber decimalArith (amount code)))
                            [\<lparr>amount = Str ''2.50''\<rparr>, \<lparr>amount = Str ''1.50''\<rparr>])
           in if isZero decimalArith total then None else Some total)"
    by blast
  then have t2: "totalDiscount decimalArith order1002 = Some (Some 4)"
    by (simp add: parseNumber_def orZero_def decimalArith_def decimalParseFloat_examples)
  from C7_discount_mapping [where ord = order1002 and A = decimalArith] h2 t2
  have "\<not> isZero decimalArith (Some 4)" by blast
  with t1 t2 h1 h2 pf show ?thesis by simp
qed

text \<open>
  C8. Customer display name. With a customer object, the name is the trimmed join
  of its first and last name; without one, that of the billing address; without
  either, \<open>null\<close>. An empty result is \<open>null\<close>; a name that is returned has no
  white space at either end and is the join less white space at its two ends.
\<close>

theorem C8_customer_name:
  "(\<forall>c. customer ord = Some c \<longrightarrow>
       customerName nt ord =
         (let s = trim (nameText nt (first_name c) @ '' '' @ nameText nt (last_name c))
          in if s = [] then None else Some s))
   \<and> (\<forall>b. customer ord = None \<and> billing_address ord = Some b \<longrightarrow>
       customerName nt ord =
         (let s = trim (nameText nt (first_name b) @ '' '' @ nameText nt (last_name b))
          in if s = [] then None else Some s))
   \<and> (customer ord = None \<and> billing_address ord = None \<longrightarrow> customerName nt ord = None)
   \<and> customerName nt ord \<noteq> Some []
   \<and> (\<forall>n. customerName nt ord = Some n \<longrightarrow>
         \<not> isWhitespace (hd n) \<and> \<not> isWhitespace (last n))
   \<and> (\<forall>n. customerName nt ord = Some n \<longrightarrow>
         (\<exists>p pre suf.
            (customer ord = Some p \<or> customer ord = None \<and> billing_address ord = Some p)
            \<and> nameText nt (first_name p) @ '' '' @ nameText nt (last_name p) = pre @ n @ suf
            \<and> list_all isWhitespace pre \<and> list_all isWhitespace suf))"
proof -
  have shape: "\<And>n. customerName nt ord = Some n \<Longrightarrow> \<exists>p. joinedName nt p = Some n"
    by (auto simp: customerName_def split: option.splits)
  have source: "\<forall>n. customerName nt ord = Some n \<longrightarrow>
         (\<exists>p pre suf.
            (customer ord = Some p \<or> customer ord = None \<and> billing_address ord = Some p)
            \<and> nameText nt (first_name p) @ '' '' @ nameText nt (last_name p) = pre @ n @ suf
            \<and> list_all isWhitespace pre \<and> list_all isWhitespace suf)"
  proof (intro allI impI)
    fix n assume n: "customerName nt ord = Some n"
    then obtain p where p: "customer ord = Some p \<or> customer ord = None \<and> billing_address ord = Some p"
      and j: "joinedName nt p = Some n"
      by (auto simp: customerName_def split: option.splits)
    let ?join = "nameText nt (first_name p) @ '' '' @ nameText nt (last_name p)"
    from joinedName_trimmed [OF j] have t: "n = trim ?join" by simp
    from trim_decomp [of ?join] obtain pre suf
      where "?join = pre @ trim ?join @ suf" "list_all isWhitespace pre" "list_all isWhitespace suf"
      by blast
    with p t show "\<exists>p pre suf.
            (customer ord = Some p \<or> customer ord = None \<and> billing_address ord = Some p)
            \<and> nameText nt (first_name p) @ '' '' @ nameText nt (last_name p) = pre @ n @ suf
            \<and> list_all isWhitespace pre \<and> list_all isWhitespace suf"
      by blast
  qed
  have "customerName nt ord \<noteq> Some []"
    using shape joinedName_trimmed by blast
  moreover have "\<forall>n. customerName nt ord = Some n \<longrightarrow>
         \<not> isWhitespace (hd n) \<and> \<not> isWhitespace (last n)"
  proof (intro allI impI)
    fix n assume "customerName nt ord = Some n"
    then obtain p where "joinedName nt p = Some n" using shape by blast
    then obtain s where "n = trim s" "trim s \<noteq> []"
      using joinedName_trimmed by blast
    then show "\<not> isWhitespace (hd n) \<and> \<not> isWhitespace (last n)"
      using trim_hd trim_last by simp
  qed
  ultimately show ?thesis
    using source by (simp add: customerName_def joinedName_def)
qed

theorem C8_customer_name_witness:
  "customer order1001 = Some \<lparr>first_name = Str '' Ada'', last_name = Str ''Lovelace ''\<rparr>
   \<and> customerName decimalNumText order1001 = Some ''Ada Lovelace''
   \<and> customer order1002 = None
   \<and> billing_address order1002 = Some \<lparr>first_name = Str ''Grace'', last_name = Null\<rparr>
   \<and> customerName decimalNumText order1002 = Some ''Grace''
   \<and> customer order1003 = Some \<lparr>first_name = Str [CHR 0xA0], last_name = Str [CHR 0x09]\<rparr>
   \<and> customerName decimalNumText order1003 = None"
proof -
  have h1: "customer order1001 = Some \<lparr>first_name = Str '' Ada'', last_name = Str ''Lovelace ''\<rparr>"
    by (simp add: order1001_def)
  have h2: "customer order1002 = None
            \<and> billing_address order1002 = Some \<lparr>first_name = Str ''Grace'', last_name = Null\<rparr>"
    by (simp add: order1002_def)
  from C8_customer_name [where ord = order1001 and nt = decimalNumText] h1
  have "customerName decimalNumText order1001 =
          (let s = trim (nameText decimalNumText (Str '' Ada'') @ '' '' @
                         nameText decimalNumText (Str ''Lovelace ''))
           in if s = [] then None else Some s)"
    by simp
  then have n1: "customerName decimalNumText order1001 = Some ''Ada Lovelace''"
    by (simp add: nameText_def getValue_def js_or_def trim_def isWhitespace_def)
  from C8_customer_name [where ord = order1002 and nt = decimalNumText] h2
  have "customerName decimalNumText order1002 =
          (let s = trim (nameText decimalNumText (Str ''Grace'') @ '' '' @
                         nameText decimalNumText Null)
           in if s = [] then None else Some s)"
    by simp
  then have n2: "customerName decimalNumText order1002 = Some ''Grace''"
    by (simp add: nameText_def getValue_def js_or_def trim_def isWhitespace_def)
  have h3: "customer order1003
              = Some \<lparr>first_name = Str [CHR 0xA0], last_name = Str [CHR 0x09]\<rparr>"
    by (simp add: order1003_def)
  from C8_customer_name [where ord = order1003 and nt = decimalNumText] h3
  have "customerName decimalNumText order1003 =
          (let s = trim (nameText decimalNumText (Str [CHR 0xA0]) @ '' '' @
                         nameText decimalNumText (Str [CHR 0x09]))
           in if s = [] then None else Some s)"
    by simp
  then have "customerName decimalNumText order1003 = None"
    by (simp add: nameText_def getValue_def js_or_def trim_def isWhitespace_def)
  with n1 n2 h1 h2 h3 show ?thesis by simp
qed

section \<open>The order reconciler\<close>

text \<open>
  C1 (amended). Idempotent create. When the lookup of \<open>handleOrderCreated\<close> answers
  and its result holds a deal whose join key is the order's identifier as a string,
  the handler returns that deal's identifier and the lookup is the only call it
  makes: no second create, and no update either. When the result holds no such
  deal, the run issues no update, and a run that returns has issued exactly one
  create, whose fields carry the join key.
\<close>

theorem C1_idempotent_create:
  assumes "handleOrderCreated env ord s = (r, s')"
    and "fst (crm_deal_list env (existingDealCheck (jsString (numText env) (order_id ord)))
            (world s)) = Inr res"
  shows "(\<forall>m. find (\<lambda>d. jsString (numText env) (UF_SHOPIFY_ORDER_ID d) =
                       jsString (numText env) (order_id ord))
                 (case res of None \<Rightarrow> [] | Some ds \<Rightarrow> ds) = Some m \<longrightarrow>
            r = Inr (ID m)
            \<and> calls (trace s') =
                calls (trace s) @
                  [DealList (existingDealCheck (jsString (numText env) (order_id ord)))])
       \<and> (find (\<lambda>d. jsString (numText env) (UF_SHOPIFY_ORDER_ID d) =
                     jsString (numText env) (order_id ord))
               (case res of None \<Rightarrow> [] | Some ds \<Rightarrow> ds) = None \<longrightarrow>
            filter isDealUpdate (calls (trace s')) = filter isDealUpdate (calls (trace s))
            \<and> (\<forall>i. r = Inr i \<longrightarrow>
                  (\<exists>flds. filter isDealAdd (calls (trace s')) =
                            filter isDealAdd (calls (trace s)) @ [DealAdd flds]
                          \<and> obj_get flds ''UF_SHOPIFY_ORDER_ID'' =
                              Str (jsString (numText env) (order_id ord)))))"
proof (intro conjI allI impI)
  fix m
  assume "find (\<lambda>d. jsString (numText env) (UF_SHOPIFY_ORDER_ID d) =
                       jsString (numText env) (order_id ord))
                 (case res of None \<Rightarrow> [] | Some ds \<Rightarrow> ds) = Some m"
  from handleOrderCreated_match [OF assms this]
  show "r = Inr (ID m)"
    and "calls (trace s') =
           calls (trace s) @
             [DealList (existingDealCheck (jsString (numText env) (order_id ord)))]"
    by simp_all
next
  assume nomatch: "find (\<lambda>d. jsString (numText env) (UF_SHOPIFY_ORDER_ID d) =
                     jsString (numText env) (order_id ord))
               (case res of None \<Rightarrow> [] | Some ds \<Rightarrow> ds) = None"
  note cases = handleOrderCreated_run [OF assms nomatch]
  from cases
  show "filter isDealUpdate (calls (trace s')) = filter isDealUpdate (calls (trace s))"
    by (auto dest: addDeal_run(1) simp: calls_append)
  fix i assume "r = Inr i"
  with cases
  show "\<exists>flds. filter isDealAdd (calls (trace s')) =
                 filter isDealAdd (calls (trace s)) @ [DealAdd flds]
               \<and> obj_get flds ''UF_SHOPIFY_ORDER_ID'' =
                   Str (jsString (numText env) (order_id ord))"
    by (auto dest: addDeal_run(1) simp: calls_append)
qed

text \<open>
  The same payload delivered twice to the in-memory CRM: the first delivery creates
  deal 1; the second finds it, issues the lookup only, and leaves the CRM with that
  one deal.
\<close>

theorem C1_idempotent_create_witness:
  "fst (crm_deal_list memDeps (existingDealCheck ''1001'') (world afterFirstCreate))
     = Inr (Some [createdDeal1001])
   \<and> fst (handleOrderCreated memDeps order1001 afterFirstCreate) = Inr (Num 1)
   \<and> calls (trace (snd (handleOrderCreated memDeps order1001 afterFirstCreate))) =
       calls (trace afterFirstCreate) @ [DealList (existingDealCheck ''1001'')]
   \<and> crm_deals (world (snd (handleOrderCreated memDeps order1001 afterFirstCreate)))
       = [createdDeal1001]"
proof -
  let ?X = "handleOrderCreated memDeps order1001 afterFirstCreate"
  have oid: "jsString (numText memDeps) (order_id order1001) = ''1001''"
    by code_simp
  have run: "?X = (fst ?X, snd ?X)" by simp
  have look: "fst (crm_deal_list memDeps
                     (existingDealCheck (jsString (numText memDeps) (order_id order1001)))
                     (world afterFirstCreate)) = Inr (Some [createdDeal1001])"
    by code_simp
  have m: "find (\<lambda>d. jsString (numText memDeps) (UF_SHOPIFY_ORDER_ID d) =
                      jsString (numText memDeps) (order_id order1001))
             (case Some [createdDeal1001] of None \<Rightarrow> [] | Some ds \<Rightarrow> ds) = Some createdDeal1001"
    by code_simp
  have w: "crm_deals (world (snd ?X)) = [createdDeal1001]" by code_simp
  from C1_idempotent_create [OF run look] m
  have "fst ?X = Inr (ID createdDeal1001)
        \<and> calls (trace (snd ?X)) =
            calls (trace afterFirstCreate) @
              [DealList (existingDealCheck (jsString (numText memDeps) (order_id order1001)))]"
    by blast
  with look w show ?thesis by (simp add: oid createdDeal1001_def)
qed

text \<open>
  Against C1 as stated ("the second delivery performs an update"): the second
  delivery returns the existing deal and no update call appears in the trace.
\<close>

theorem C1_second_delivery_counterexample:
  "fst (handleOrderCreated memDeps order1001 afterFirstCreate) = Inr (Num 1)
   \<and> \<not> list_ex isDealUpdate
         (calls (trace (snd (handleOrderCreated memDeps order1001 afterFirstCreate))))"
  by code_simp

text \<open>
  C2. Partial-refund stage preservation. For an \<open>orders/updated\<close> event whose
  financial status is exactly \<open>partially_refunded\<close> and whose search finds a deal,
  the run issues one update, on that deal, whose fields have no \<open>STAGE_ID\<close> key
  and do have the payment-status field (with the status the policy computes), the
  opportunity and the discount, tax and shipping fields.
\<close>

theorem C2_partial_refund_keeps_stage:
  assumes "financial_status ord = Some ''partially_refunded''"
    and "findDeals env ord s = (Inr (allDeals, deal # rest), s1)"
    and "handleOrderUpdated env ord s = (r, s')"
  shows "filter isDealUpdate (calls (trace s')) =
           filter isDealUpdate (calls (trace s)) @
             [DealUpdate (ID deal) (updateFields env ord deal)]
       \<and> ''STAGE_ID'' \<notin> set (obj_keys (updateFields env ord deal))
       \<and> {''UF_CRM_1739183959976'', ''OPPORTUNITY'', ''UF_SHOPIFY_TOTAL_DISCOUNT'',
           ''UF_SHOPIFY_TOTAL_TAX'', ''UF_SHOPIFY_SHIPPING_PRICE''}
            \<subseteq> set (obj_keys (updateFields env ord deal))
       \<and> obj_get (updateFields env ord deal) ''UF_CRM_1739183959976'' =
            financialStatusToPaymentStatus env (financial_status ord)"
proof -
  from findDeals_run(2) [OF assms(2)] obtain ps
    where ps: "calls (trace s1) = calls (trace s) @ map DealList ps" by blast
  from handleOrderUpdated_existing [OF assms(2) assms(3)]
  have "filter isDealUpdate (calls (trace s')) =
          filter isDealUpdate (calls (trace s)) @
            [DealUpdate (ID deal) (updateFields env ord deal)]"
    by (auto simp: ps filter_map_DealList)
  moreover have "''STAGE_ID'' \<notin> set (obj_keys (updateFields env ord deal))"
    by (simp add: updateFields_stage assms(1) lower_partially_refunded)
  moreover note updateFields_keys [of env ord deal] updateFields_values(5) [of env ord deal]
  ultimately show ?thesis by blast
qed

theorem C2_partial_refund_keeps_stage_witness:
  "financial_status order1002 = Some ''partially_refunded''
   \<and> fst (findDeals memDeps order1002 oneDealState) = Inr ([deal1002], [deal1002])
   \<and> filter isDealUpdate (calls (trace (snd (handleOrderUpdated memDeps order1002 oneDealState))))
       = [DealUpdate (Num 7)
            [(''OPPORTUNITY'', Undefined), (''UF_SHOPIFY_TOTAL_DISCOUNT'', Num 4),
             (''UF_SHOPIFY_TOTAL_TAX'', Num 0), (''UF_SHOPIFY_SHIPPING_PRICE'', Num 0),
             (''UF_CRM_1739183959976'', Str ''partially_refunded'')]]
   \<and> STAGE_ID (hd (crm_deals (world (snd (handleOrderUpdated memDeps order1002 oneDealState)))))
       = Str ''WON''"
proof -
  let ?X = "handleOrderUpdated memDeps order1002 oneDealState"
  let ?F = "findDeals memDeps order1002 oneDealState"
  have fs: "financial_status order1002 = Some ''partially_refunded''"
    by (simp add: order1002_def)
  have f: "fst ?F = Inr ([deal1002], [deal1002])" by code_simp
  then have found: "?F = (Inr ([deal1002], [deal1002]), snd ?F)" by (simp add: prod_eq_iff)
  have run: "?X = (fst ?X, snd ?X)" by simp
  have u: "updateFields memDeps order1002 deal1002
           = [(''OPPORTUNITY'', Undefined), (''UF_SHOPIFY_TOTAL_DISCOUNT'', Num 4),
              (''UF_SHOPIFY_TOTAL_TAX'', Num 0), (''UF_SHOPIFY_SHIPPING_PRICE'', Num 0),
              (''UF_CRM_1739183959976'', Str ''partially_refunded'')]"
    by code_simp
  have w: "STAGE_ID (hd (crm_deals (world (snd ?X)))) = Str ''WON''" by code_simp
  from C2_partial_refund_keeps_stage [OF fs found run]
  have "filter isDealUpdate (calls (trace (snd ?X))) =
          filter isDealUpdate (calls (trace oneDealState)) @
            [DealUpdate (ID deal1002) (updateFields memDeps order1002 deal1002)]"
    by blast
  then have "filter isDealUpdate (calls (trace (snd ?X))) =
          [DealUpdate (Num 7) (updateFields memDeps order1002 deal1002)]"
    by (simp add: oneDealState_def deal1002_def)
  with fs f w show ?thesis by (simp add: u)
qed

text \<open>
  C3. Multi-match resolution. When the search yields several matching deals, sorted
  by creation time, newest first, the first one is at least as recent as every
  other, the run updates it, and every call of the run that changes the CRM names
  that deal: none names another of the matches.
\<close>

theorem C3_most_recent_match_updated:
  assumes "findDeals env ord s = (Inr (allDeals, deal # rest), s1)"
    and "rest \<noteq> []"
    and "sorted_wrt (\<lambda>a b. DATE_CREATE b \<le> DATE_CREATE a) (deal # rest)"
    and "handleOrderUpdated env ord s = (r, s')"
  shows "(\<forall>d \<in> set rest. DATE_CREATE d \<le> DATE_CREATE deal)
       \<and> (\<exists>ms. filter isMutation (calls (trace s')) =
                  filter isMutation (calls (trace s)) @
                    DealUpdate (ID deal) (updateFields env ord deal) # ms
               \<and> (\<forall>c \<in> set ms. targetDeal c = Some (ID deal)))"
proof -
  from assms(3) have "\<forall>d \<in> set rest. DATE_CREATE d \<le> DATE_CREATE deal" by simp
  moreover
  from findDeals_run(2) [OF assms(1)] obtain ps
    where ps: "calls (trace s1) = calls (trace s) @ map DealList ps" by blast
  from handleOrderUpdated_existing [OF assms(1) assms(4)]
  have "\<exists>ms. filter isMutation (calls (trace s')) =
                  filter isMutation (calls (trace s)) @
                    DealUpdate (ID deal) (updateFields env ord deal) # ms
               \<and> (\<forall>c \<in> set ms. targetDeal c = Some (ID deal))"
    by (auto simp: ps filter_map_DealList)
  ultimately show ?thesis by blast
qed

theorem C3_most_recent_match_updated_witness:
  "fst (findDeals memDeps order1001 duplicateState)
     = Inr ([newerDeal, olderDeal], [newerDeal, olderDeal])
   \<and> DATE_CREATE olderDeal < DATE_CREATE newerDeal
   \<and> map targetDeal
        (filter isMutation (calls (trace (snd (handleOrderUpdated memDeps order1001 duplicateState)))))
       = [Some (ID newerDeal), Some (ID newerDeal)]
   \<and> crm_deals (world (snd (handleOrderUpdated memDeps order1001 duplicateState))) ! 1 = olderDeal"
proof -
  let ?X = "handleOrderUpdated memDeps order1001 duplicateState"
  let ?F = "findDeals memDeps order1001 duplicateState"
  have f: "fst ?F = Inr ([newerDeal, olderDeal], [newerDeal, olderDeal])" by code_simp
  then have found: "?F = (Inr ([newerDeal, olderDeal], newerDeal # [olderDeal]), snd ?F)"
    by (simp add: prod_eq_iff)
  have run: "?X = (fst ?X, snd ?X)" by simp
  have ne: "[olderDeal] \<noteq> []" by simp
  have srt: "sorted_wrt (\<lambda>a b. DATE_CREATE b \<le> DATE_CREATE a) (newerDeal # [olderDeal])"
    by (simp add: newerDeal_def olderDeal_def)
  have d: "DATE_CREATE olderDeal < DATE_CREATE newerDeal"
    by (simp add: newerDeal_def olderDeal_def)
  have t: "map targetDeal (filter isMutation (calls (trace (snd ?X))))
             = [Some (ID newerDeal), Some (ID newerDeal)]" by code_simp
  have w: "crm_deals (world (snd ?X)) ! 1 = olderDeal" by code_simp
  from C3_most_recent_match_updated [OF found ne srt run]
  have "\<forall>d \<in> set [olderDeal]. DATE_CREATE d \<le> DATE_CREATE newerDeal" by blast
  with f d t w show ?thesis by simp
qed

text \<open>
  C4 (amended). Full row replacement. When the search finds a deal and the field
  update returns, the run goes on to one row call on that deal with the rows the
  mapper gives for the current order, the empty list when there are none, and
  returns the deal's identifier; with no rows the last call of the run is the row
  call with the empty list. When the field update throws, the run ends with that
  exception and the update is its last call: no row call is made.
\<close>

theorem C4_rows_always_replaced:
  assumes "findDeals env ord s = (Inr (allDeals, deal # rest), s1)"
    and "handleOrderUpdated env ord s = (r, s')"
  shows "(fst (crm_deal_update env (ID deal) (updateFields env ord deal) (world s1)) = Inr ()
          \<longrightarrow> r = Inr (ID deal)
              \<and> calls (trace s') =
                  calls (trace s1) @
                    [DealUpdate (ID deal) (updateFields env ord deal),
                     ProductRowsSet (ID deal)
                       (case productRows (mapShopifyOrderToBitrixDeal env ord) of
                          None \<Rightarrow> [] | Some rows \<Rightarrow> rows)]
              \<and> (productRows (mapShopifyOrderToBitrixDeal env ord) = Some [] \<longrightarrow>
                   last (calls (trace s')) = ProductRowsSet (ID deal) []))
       \<and> (\<forall>e. fst (crm_deal_update env (ID deal) (updateFields env ord deal) (world s1)) = Inl e
          \<longrightarrow> r = Inl e
              \<and> calls (trace s') =
                  calls (trace s1) @ [DealUpdate (ID deal) (updateFields env ord deal)])"
  using handleOrderUpdated_existing [OF assms(1) assms(2)] by auto

theorem C4_rows_always_replaced_witness:
  "fst (findDeals memDeps order1001Emptied afterFirstCreate)
     = Inr ([createdDeal1001], [createdDeal1001])
   \<and> crm_rows (world afterFirstCreate) = [(Num 1, [shirt])]
   \<and> productRows (mapShopifyOrderToBitrixDeal memDeps order1001Emptied) = Some []
   \<and> fst (handleOrderUpdated memDeps order1001Emptied afterFirstCreate) = Inr (Num 1)
   \<and> last (calls (trace (snd (handleOrderUpdated memDeps order1001Emptied afterFirstCreate))))
       = ProductRowsSet (Num 1) []
   \<and> crm_rows (world (snd (handleOrderUpdated memDeps order1001Emptied afterFirstCreate)))
       = [(Num 1, [])]
   \<and> fst (findDeals updateFailDeps order1001Emptied afterFirstCreate)
       = Inr ([createdDeal1001], [createdDeal1001])
   \<and> fst (handleOrderUpdated updateFailDeps order1001Emptied afterFirstCreate)
       = Inl (Error ''update rejected'')"
proof -
  let ?X = "handleOrderUpdated memDeps order1001Emptied afterFirstCreate"
  let ?F = "findDeals memDeps order1001Emptied afterFirstCreate"
  let ?Y = "handleOrderUpdated updateFailDeps order1001Emptied afterFirstCreate"
  let ?G = "findDeals updateFailDeps order1001Emptied afterFirstCreate"
  have f: "fst ?F = Inr ([createdDeal1001], [createdDeal1001])" by code_simp
  then have found: "?F = (Inr ([createdDeal1001], [createdDeal1001]), snd ?F)"
    by (simp add: prod_eq_iff)
  have run: "?X = (fst ?X, snd ?X)" by simp
  have upd: "fst (crm_deal_update memDeps (ID createdDeal1001)
                    (updateFields memDeps order1001Emptied createdDeal1001) (world (snd ?F)))
               = Inr ()"
    by (simp add: memDeps_def memUpdate_def)
  have before: "crm_rows (world afterFirstCreate) = [(Num 1, [shirt])]" by code_simp
  have rows: "productRows (mapShopifyOrderToBitrixDeal memDeps order1001Emptied) = Some []"
    by (simp add: memDeps_def simpleMapper_def order1001Emptied_def)
  have after: "crm_rows (world (snd ?X)) = [(Num 1, [])]" by code_simp
  from C4_rows_always_replaced [OF found run] upd rows
  have ok: "fst ?X = Inr (ID createdDeal1001)
        \<and> last (calls (trace (snd ?X))) = ProductRowsSet (ID createdDeal1001) []"
    by blast
  have g: "fst ?G = Inr ([createdDeal1001], [createdDeal1001])" by code_simp
  then have found': "?G = (Inr ([createdDeal1001], [createdDeal1001]), snd ?G)"
    by (simp add: prod_eq_iff)
  have run': "?Y = (fst ?Y, snd ?Y)" by simp
  have thrown: "fst (crm_deal_update updateFailDeps (ID createdDeal1001)
                    (updateFields updateFailDeps order1001Emptied createdDeal1001)
                    (world (snd ?G)))
               = Inl (Error ''update rejected'')"
    by (simp add: updateFailDeps_def)
  from C4_rows_always_replaced [OF found' run'] thrown
  have "fst ?Y = Inl (Error ''update rejected'')" by blast
  with ok f g before rows after show ?thesis by (simp add: createdDeal1001_def)
qed

text \<open>
  Against C4 as stated ("always calls the product-rows set operation"): order 1001
  has lost its line items, its deal is found, the field update throws. The run ends
  with the exception after the update call, no row call follows, and the deal keeps
  its one stale row.
\<close>

theorem C4_update_failure_counterexample:
  "fst (findDeals updateFailDeps order1001Emptied afterFirstCreate)
     = Inr ([createdDeal1001], [createdDeal1001])
   \<and> fst (handleOrderUpdated updateFailDeps order1001Emptied afterFirstCreate)
       = Inl (Error ''update rejected'')
   \<and> calls (trace (snd (handleOrderUpdated updateFailDeps order1001Emptied afterFirstCreate)))
       = calls (trace afterFirstCreate) @
           [DealList (filteredQuery ''1001''),
            DealUpdate (Num 1) (updateFields updateFailDeps order1001Emptied createdDeal1001)]
   \<and> crm_rows (world (snd (handleOrderUpdated updateFailDeps order1001Emptied afterFirstCreate)))
       = [(Num 1, [shirt])]"
  by code_simp

text \<open>
  C5. Non-fatal collaborator failures: the create branch of
  \<open>handleOrderUpdated\<close> breaks it. On the empty CRM, with a row call that throws,
  an \<open>orders/updated\<close> event for order 1001 creates the deal and then fails with
  the row call's exception, which the endpoint answers with status 500. The same
  failure in \<open>handleOrderCreated\<close> is caught and the run returns the new deal.
\<close>

theorem C5_rows_failure_escapes:
  "fst (handleOrderUpdated rowsFailDeps order1001 emptyState) = Inl (Error ''rows rejected'')
   \<and> fst (handler rowsFailDeps ''req-1'' ''ev-1'' ''2024-05-01'' updatedRequest emptyState)
       = \<lparr>status = 500, resp_body = ErrorJson ''rows rejected'' ''req-1''\<rparr>
   \<and> length (crm_deals (world (snd (handleOrderUpdated rowsFailDeps order1001 emptyState)))) = 1
   \<and> fst (handleOrderCreated rowsFailDeps order1001 emptyState) = Inr (Num 1)"
  by code_simp

text \<open>
  C6. Create hard failure. In \<open>handleOrderCreated\<close>, when the lookup finds no match
  and the run reaches the create, and in \<open>handleOrderUpdated\<close>, when the search finds
  no deal: if the CRM's response to the create carries a falsy \<open>result\<close>, the run
  ends with the exception \<open>Failed to create deal: ...\<close> and the create is its last
  call. At the endpoint, for a CRM that answers every create so, a POST request
  whose handling issues a create is answered with status 500 and that message.
\<close>

theorem C6_create_without_result_fails:
  "(\<forall>res s1 rows flds s2 resp.
      callDealList env (existingDealCheck (jsString (numText env) (order_id ord))) s
        = (Inr res, s1)
      \<and> find (\<lambda>d. jsString (numText env) (UF_SHOPIFY_ORDER_ID d) =
                     jsString (numText env) (order_id ord))
            (case res of None \<Rightarrow> [] | Some ds \<Rightarrow> ds) = None
      \<and> productRows (mapShopifyOrderToBitrixDeal env ord) = Some rows
      \<and> upsertContact env ord
            (AList.update ''UF_SHOPIFY_ORDER_ID'' (Str (jsString (numText env) (order_id ord)))
               (dealFields (mapShopifyOrderToBitrixDeal env ord))) s1 = (Inr flds, s2)
      \<and> fst (crm_deal_add env flds (world s2)) = Inr resp
      \<and> \<not> truthy (result resp)
      \<longrightarrow> fst (handleOrderCreated env ord s)
             = Inl (Error (''Failed to create deal: '' @ json resp))
          \<and> calls (trace (snd (handleOrderCreated env ord s)))
             = calls (trace s2) @ [DealAdd flds])
   \<and> (\<forall>allDeals s1 flds s2 resp.
      findDeals env ord s = (Inr (allDeals, []), s1)
      \<and> upsertContact env ord
            (AList.update ''UF_SHOPIFY_ORDER_ID'' (Str (jsString (numText env) (order_id ord)))
               (AList.update ''CATEGORY_ID'' (categoryId env ord)
                  (dealFields (mapShopifyOrderToBitrixDeal env ord)))) s1 = (Inr flds, s2)
      \<and> fst (crm_deal_add env flds (world s2)) = Inr resp
      \<and> \<not> truthy (result resp)
      \<longrightarrow> fst (handleOrderUpdated env ord s)
             = Inl (Error (''Failed to create deal: '' @ json resp))
          \<and> calls (trace (snd (handleOrderUpdated env ord s)))
             = calls (trace s2) @ [DealAdd flds])
   \<and> ((\<forall>flds w. \<exists>resp. fst (crm_deal_add env flds w) = Inr resp \<and> \<not> truthy (result resp))
       \<and> req_method req = ''POST'' \<and> handler env rid uid now req s = (rsp, s')
       \<and> filter isDealAdd (calls (trace s')) \<noteq> filter isDealAdd (calls (trace s))
      \<longrightarrow> (\<exists>resp :: add_response. \<not> truthy (result resp)
             \<and> rsp = \<lparr>status = 500,
                      resp_body = ErrorJson (''Failed to create deal: '' @ json resp) rid\<rparr>))"
proof (intro conjI allI impI)
  fix res s1 rows flds s2 and resp :: add_response
  assume h: "callDealList env (existingDealCheck (jsString (numText env) (order_id ord))) s
        = (Inr res, s1)
      \<and> find (\<lambda>d. jsString (numText env) (UF_SHOPIFY_ORDER_ID d) =
                     jsString (numText env) (order_id ord))
            (case res of None \<Rightarrow> [] | Some ds \<Rightarrow> ds) = None
      \<and> productRows (mapShopifyOrderToBitrixDeal env ord) = Some rows
      \<and> upsertContact env ord
            (AList.update ''UF_SHOPIFY_ORDER_ID'' (Str (jsString (numText env) (order_id ord)))
               (dealFields (mapShopifyOrderToBitrixDeal env ord))) s1 = (Inr flds, s2)
      \<and> fst (crm_deal_add env flds (world s2)) = Inr resp
      \<and> \<not> truthy (result resp)"
  from h have "fst (handleOrderCreated env ord s)
             = Inl (Error (''Failed to create deal: '' @ json resp))
          \<and> calls (trace (snd (handleOrderCreated env ord s)))
             = calls (trace s2) @ [DealAdd flds]"
    by (intro handleOrderCreated_falsy_at [of env ord s res s1 rows flds s2 resp]) simp_all
  then show "fst (handleOrderCreated env ord s)
             = Inl (Error (''Failed to create deal: '' @ json resp))"
    and "calls (trace (snd (handleOrderCreated env ord s)))
             = calls (trace s2) @ [DealAdd flds]"
    by simp_all
next
  fix allDeals s1 flds s2 and resp :: add_response
  assume h: "findDeals env ord s = (Inr (allDeals, []), s1)
      \<and> upsertContact env ord
            (AList.update ''UF_SHOPIFY_ORDER_ID'' (Str (jsString (numText env) (order_id ord)))
               (AList.update ''CATEGORY_ID'' (categoryId env ord)
                  (dealFields (mapShopifyOrderToBitrixDeal env ord)))) s1 = (Inr flds, s2)
      \<and> fst (crm_deal_add env flds (world s2)) = Inr resp
      \<and> \<not> truthy (result resp)"
  from h have "fst (handleOrderUpdated env ord s)
             = Inl (Error (''Failed to create deal: '' @ json resp))
          \<and> calls (trace (snd (handleOrderUpdated env ord s)))
             = calls (trace s2) @ [DealAdd flds]"
    by (intro handleOrderUpdated_falsy_at [of env ord s allDeals s1 flds s2 resp]) simp_all
  then show "fst (handleOrderUpdated env ord s)
             = Inl (Error (''Failed to create deal: '' @ json resp))"
    and "calls (trace (snd (handleOrderUpdated env ord s)))
             = calls (trace s2) @ [DealAdd flds]"
    by simp_all
next
  assume h: "(\<forall>flds w. \<exists>resp. fst (crm_deal_add env flds w) = Inr resp \<and> \<not> truthy (result resp))
       \<and> req_method req = ''POST'' \<and> handler env rid uid now req s = (rsp, s')
       \<and> filter isDealAdd (calls (trace s')) \<noteq> filter isDealAdd (calls (trace s))"
  then have falsy: "\<forall>flds w. \<exists>resp. fst (crm_deal_add env flds w) = Inr resp
                      \<and> \<not> truthy (result resp)"
    by blast
  from h obtain sB rd sC where cB: "calls (trace sB) = calls (trace s)"
    and d: "dispatch env (topic req) (req_body req) sB = (rd, sC)"
    and cC: "calls (trace s') = calls (trace sC)"
    and out: "case rd of
                 Inr _ \<Rightarrow> rsp = \<lparr>status = 200, resp_body = SuccessJson rid (topic req)\<rparr>
               | Inl e \<Rightarrow> rsp = \<lparr>status = 500, resp_body = ErrorJson (message e) rid\<rparr>"
    using handler_post_run [of req env rid uid now s rsp s'] by blast
  from h cB cC have ne: "filter isDealAdd (calls (trace sC)) \<noteq> filter isDealAdd (calls (trace sB))"
    by simp
  with dispatch_run [OF d] obtain ord' r'
    where hr: "handleOrderCreated env ord' sB = (r', sC) \<or> handleOrderUpdated env ord' sB = (r', sC)"
      and rd: "case r' of Inl e \<Rightarrow> rd = Inl e | Inr _ \<Rightarrow> rd = Inr ()"
    by blast
  from hr ne handleOrderCreated_falsy [OF falsy] handleOrderUpdated_falsy [OF falsy]
  obtain resp :: add_response where resp: "\<not> truthy (result resp)"
    "r' = Inl (Error (''Failed to create deal: '' @ json resp))"
    by blast
  with rd out have "rsp = \<lparr>status = 500,
                            resp_body = ErrorJson (''Failed to create deal: '' @ json resp) rid\<rparr>"
    by (simp add: message_def)
  with resp(1) show "\<exists>resp :: add_response. \<not> truthy (result resp)
                   \<and> rsp = \<lparr>status = 500,
                            resp_body = ErrorJson (''Failed to create deal: '' @ json resp) rid\<rparr>"
    by blast
qed

theorem C6_create_without_result_fails_witness:
  "fst (callDealList addFailDeps (existingDealCheck ''1001'') emptyState) = Inr (Some [])
   \<and> fst (crm_deal_add addFailDeps [] (world emptyState)) = Inr noResult
   \<and> \<not> truthy (result noResult)
   \<and> fst (handleOrderCreated addFailDeps order1001 emptyState)
       = Inl (Error ''Failed to create deal: {error}'')
   \<and> fst (findDeals addFailDeps order1001 emptyState) = Inr ([], [])
   \<and> fst (handleOrderUpdated addFailDeps order1001 emptyState)
       = Inl (Error ''Failed to create deal: {error}'')
   \<and> req_method createdRequest = ''POST''
   \<and> fst (handler addFailDeps ''req-1'' ''ev-1'' ''2024-05-01'' createdRequest emptyState)
       = \<lparr>status = 500, resp_body = ErrorJson ''Failed to create deal: {error}'' ''req-1''\<rparr>"
proof -
  let ?oid = "jsString (numText addFailDeps) (order_id order1001)"
  let ?L = "callDealList addFailDeps (existingDealCheck ?oid) emptyState"
  let ?F0 = "AList.update ''UF_SHOPIFY_ORDER_ID'' (Str ?oid)
               (dealFields (mapShopifyOrderToBitrixDeal addFailDeps order1001))"
  let ?U = "upsertContact addFailDeps order1001 ?F0 (snd ?L)"
  let ?G = "findDeals addFailDeps order1001 emptyState"
  let ?F1 = "AList.update ''UF_SHOPIFY_ORDER_ID'' (Str ?oid)
               (AList.update ''CATEGORY_ID'' (categoryId addFailDeps order1001)
                  (dealFields (mapShopifyOrderToBitrixDeal addFailDeps order1001)))"
  let ?V = "upsertContact addFailDeps order1001 ?F1 (snd ?G)"
  let ?H = "handler addFailDeps ''req-1'' ''ev-1'' ''2024-05-01'' createdRequest emptyState"
  have oid: "?oid = ''1001''" by code_simp
  have add: "\<And>flds w. fst (crm_deal_add addFailDeps flds w) = Inr noResult"
    by (simp add: addFailDeps_def noResult_def)
  have nr: "\<not> truthy (result noResult)" by (simp add: noResult_def)
  have l: "fst ?L = Inr (Some [])" by code_simp
  then have l': "?L = (Inr (Some []), snd ?L)" by (simp add: prod_eq_iff)
  have nomatch: "find (\<lambda>d. jsString (numText addFailDeps) (UF_SHOPIFY_ORDER_ID d) = ?oid)
                   (case Some [] of None \<Rightarrow> [] | Some ds \<Rightarrow> ds) = None" by simp
  have rows: "productRows (mapShopifyOrderToBitrixDeal addFailDeps order1001) = Some [shirt]"
    by code_simp
  have u: "fst ?U = Inr ?F0" by code_simp
  then have u': "?U = (Inr ?F0, snd ?U)" by (simp add: prod_eq_iff)
  have g: "fst ?G = Inr ([], [])" by code_simp
  then have g': "?G = (Inr ([], []), snd ?G)" by (simp add: prod_eq_iff)
  have v: "fst ?V = Inr ?F1" by code_simp
  then have v': "?V = (Inr ?F1, snd ?V)" by (simp add: prod_eq_iff)
  have post: "req_method createdRequest = ''POST''" by (simp add: createdRequest_def)
  have hadds: "filter isDealAdd (calls (trace (snd ?H)))
                 \<noteq> filter isDealAdd (calls (trace emptyState))" by code_simp
  note inst = C6_create_without_result_fails [where env = addFailDeps and ord = order1001 and s = emptyState
                       and req = createdRequest and rid = "''req-1''" and uid = "''ev-1''"
                       and now = "''2024-05-01''" and rsp = "fst ?H" and s' = "snd ?H"]
  from inst l' nomatch rows u' add nr
  have c: "fst (handleOrderCreated addFailDeps order1001 emptyState)
             = Inl (Error (''Failed to create deal: '' @ json noResult))"
    by blast
  from inst g' v' add nr
  have d: "fst (handleOrderUpdated addFailDeps order1001 emptyState)
             = Inl (Error (''Failed to create deal: '' @ json noResult))"
    by blast
  have "\<forall>flds w. \<exists>resp. fst (crm_deal_add addFailDeps flds w) = Inr resp \<and> \<not> truthy (result resp)"
    using add nr by blast
  with inst post hadds
  have "\<exists>resp :: add_response. \<not> truthy (result resp)
             \<and> fst ?H = \<lparr>status = 500,
                      resp_body = ErrorJson (''Failed to create deal: '' @ json resp) ''req-1''\<rparr>"
    by simp
  moreover have "fst ?H = \<lparr>status = 500,
                      resp_body = ErrorJson ''Failed to create deal: {error}'' ''req-1''\<rparr>"
    by code_simp
  ultimately show ?thesis
    using l g c d add nr post by (simp add: oid noResult_def)
qed

text \<open>
  C10. Null-to-zero coercion on update. For an \<open>orders/updated\<close> event whose search
  finds a deal, the one update the run issues writes 0 for the discount, tax or
  shipping field when the mapper produced \<open>null\<close> for it, as it does when the
  mapper produced 0.
\<close>

theorem C10_null_written_as_zero:
  assumes "findDeals env ord s = (Inr (allDeals, deal # rest), s1)"
    and "handleOrderUpdated env ord s = (r, s')"
    and "k \<in> {''UF_SHOPIFY_TOTAL_DISCOUNT'', ''UF_SHOPIFY_TOTAL_TAX'', ''UF_SHOPIFY_SHIPPING_PRICE''}"
    and "obj_get (dealFields (mapShopifyOrderToBitrixDeal env ord)) k = Null
         \<or> obj_get (dealFields (mapShopifyOrderToBitrixDeal env ord)) k = Num 0"
  shows "filter isDealUpdate (calls (trace s')) =
           filter isDealUpdate (calls (trace s)) @
             [DealUpdate (ID deal) (updateFields env ord deal)]
       \<and> obj_get (updateFields env ord deal) k = Num 0"
proof -
  from findDeals_run(2) [OF assms(1)] obtain ps
    where ps: "calls (trace s1) = calls (trace s) @ map DealList ps" by blast
  from handleOrderUpdated_existing [OF assms(1) assms(2)]
  have "filter isDealUpdate (calls (trace s')) =
          filter isDealUpdate (calls (trace s)) @
            [DealUpdate (ID deal) (updateFields env ord deal)]"
    by (auto simp: ps filter_map_DealList)
  moreover from assms(3) assms(4) have "obj_get (updateFields env ord deal) k = Num 0"
    by (auto simp: updateFields_values js_or_def)
  ultimately show ?thesis by blast
qed

theorem C10_null_written_as_zero_witness:
  "fst (findDeals memDeps order1002 oneDealState) = Inr ([deal1002], [deal1002])
   \<and> obj_get (dealFields (mapShopifyOrderToBitrixDeal memDeps order1002)) ''UF_SHOPIFY_TOTAL_TAX''
       = Null
   \<and> obj_get (updateFields memDeps order1002 deal1002) ''UF_SHOPIFY_TOTAL_TAX'' = Num 0"
proof -
  let ?X = "handleOrderUpdated memDeps order1002 oneDealState"
  let ?F = "findDeals memDeps order1002 oneDealState"
  have f: "fst ?F = Inr ([deal1002], [deal1002])" by code_simp
  then have found: "?F = (Inr ([deal1002], [deal1002]), snd ?F)" by (simp add: prod_eq_iff)
  have run: "?X = (fst ?X, snd ?X)" by simp
  have k: "''UF_SHOPIFY_TOTAL_TAX'' \<in> {''UF_SHOPIFY_TOTAL_DISCOUNT'', ''UF_SHOPIFY_TOTAL_TAX'',
             ''UF_SHOPIFY_SHIPPING_PRICE''}" by simp
  have n: "obj_get (dealFields (mapShopifyOrderToBitrixDeal memDeps order1002))
             ''UF_SHOPIFY_TOTAL_TAX'' = Null"
    by (simp add: memDeps_def simpleMapper_def obj_get_def)
  from C10_null_written_as_zero [OF found run k disjI1 [OF n]] f n
  show ?thesis by simp
qed

section \<open>The webhook endpoint\<close>

text \<open>
  C9 (amended). Transport-method rejection. A request whose method is not
  \<open>POST\<close> is answered with status 405 and the text \<open>Method not allowed\<close> as
  body, and the state is left as it was: no CRM call, no log entry, no stored event.
\<close>

theorem C9_wrong_method_rejected:
  assumes "req_method req \<noteq> ''POST''"
  shows "handler env rid uid now req s =
           (\<lparr>status = 405, resp_body = Text ''Method not allowed''\<rparr>, s)"
  using assms by (simp add: handler_def)

theorem C9_wrong_method_rejected_witness:
  "req_method getRequest \<noteq> ''POST''
   \<and> handler memDeps ''req-1'' ''ev-1'' ''2024-05-01'' getRequest emptyState =
       (\<lparr>status = 405, resp_body = Text ''Method not allowed''\<rparr>, emptyState)"
proof -
  have m: "req_method getRequest \<noteq> ''POST''" by (simp add: getRequest_def)
  from C9_wrong_method_rejected [OF m] m show ?thesis by simp
qed

text \<open>
  Against C9 as stated ("no body"): the response to a GET request has the body
  \<open>Method not allowed\<close>.
\<close>

theorem C9_no_body_counterexample:
  "resp_body (fst (handler memDeps ''req-1'' ''ev-1'' ''2024-05-01'' getRequest emptyState))
     = Text ''Method not allowed''
   \<and> resp_body (fst (handler memDeps ''req-1'' ''ev-1'' ''2024-05-01'' getRequest emptyState))
       \<noteq> Empty"
  by (simp add: handler_def getRequest_def)

end
